theory Spec2Isabelle
  imports Complex_Main "HOL-Library.Code_Target_Numeral"
begin

section \<open>Python values\<close>

text \<open>
  The three workers (\<^verbatim>\<open>lead_scoring_worker.py\<close>, \<^verbatim>\<open>blockchain_worker.py\<close>,
  \<^verbatim>\<open>chat_analysis_worker.py\<close>) receive what \<^verbatim>\<open>json.loads\<close> returns for a queue
  item and build dictionaries of the same kind. A Python \<^verbatim>\<open>str\<close> is a sequence of
  Unicode code points, so a string is a list of code points here; \<open>str\<close> turns an
  ASCII literal of the source into that list.

  Python floats are modelled as reals: arithmetic and comparisons are exact, and
  \<^verbatim>\<open>nan\<close> and the infinities are outside the model.
\<close>

type_synonym pystr = "nat list"

definition str :: "string \<Rightarrow> pystr" where
  "str cs = map of_char cs"

datatype json =
    JNull
  | JBool bool
  | JInt int
  | JFloat real
  | JStr pystr
  | JList "json list"
  | JDict "(pystr \<times> json) list"

text \<open>
  Exceptions. \<open>ValueError\<close> carries its message: the workers raise it themselves
  with a fixed text. \<open>KeyError\<close> carries the missing key. The others are raised by
  the interpreter or a library; the wording of their message is CPython's and is
  a parameter of the model (\<open>interp_text\<close> below).
\<close>

datatype exn =
    ValueError pystr
  | KeyError pystr
  | TypeError
  | AttributeError
  | JSONDecodeError
  | ConversionError
  | ServiceError

definition bnd :: "exn + 'a \<Rightarrow> ('a \<Rightarrow> exn + 'b) \<Rightarrow> exn + 'b" where
  "bnd m f = (case m of Inl e \<Rightarrow> Inl e | Inr v \<Rightarrow> f v)"

text \<open>\<^verbatim>\<open>d.get(k, default)\<close> on a dictionary, and on any value (only a dict has \<^verbatim>\<open>get\<close>).\<close>

definition dict_get :: "(pystr \<times> json) list \<Rightarrow> pystr \<Rightarrow> json \<Rightarrow> json" where
  "dict_get d k dflt = (case map_of d k of None \<Rightarrow> dflt | Some v \<Rightarrow> v)"

definition py_get :: "json \<Rightarrow> pystr \<Rightarrow> json \<Rightarrow> exn + json" where
  "py_get v k dflt = (case v of JDict d \<Rightarrow> Inr (dict_get d k dflt) | _ \<Rightarrow> Inl AttributeError)"

text \<open>Truth value of a Python object, as \<^verbatim>\<open>and\<close>, \<^verbatim>\<open>if\<close> and \<^verbatim>\<open>all\<close> read it.\<close>

fun truthy :: "json \<Rightarrow> bool" where
  "truthy JNull = False"
| "truthy (JBool b) = b"
| "truthy (JInt i) = (i \<noteq> 0)"
| "truthy (JFloat r) = (r \<noteq> 0)"
| "truthy (JStr s) = (s \<noteq> [])"
| "truthy (JList xs) = (xs \<noteq> [])"
| "truthy (JDict d) = (d \<noteq> [])"

text \<open>\<^verbatim>\<open>p in s\<close> on two strings: \<open>p\<close> occurs in \<open>s\<close> as a contiguous run.\<close>

fun starts_with :: "pystr \<Rightarrow> pystr \<Rightarrow> bool" where
  "starts_with [] s = True"
| "starts_with (p # ps) [] = False"
| "starts_with (p # ps) (c # cs) = (p = c \<and> starts_with ps cs)"

fun contains :: "pystr \<Rightarrow> pystr \<Rightarrow> bool" where
  "contains p [] = (p = [])"
| "contains p (c # cs) = (starts_with p (c # cs) \<or> contains p cs)"

text \<open>\<^verbatim>\<open>k in v\<close> for a string \<open>k\<close> and any value \<open>v\<close>, and \<^verbatim>\<open>v[k]\<close> with a string key.\<close>

fun py_in :: "pystr \<Rightarrow> json \<Rightarrow> exn + bool" where
  "py_in k (JDict d) = Inr (map_of d k \<noteq> None)"
| "py_in k (JStr s) = Inr (contains k s)"
| "py_in k (JList xs) = Inr (JStr k \<in> set xs)"
| "py_in k v = Inl TypeError"

fun py_subscript :: "json \<Rightarrow> pystr \<Rightarrow> exn + json" where
  "py_subscript (JDict d) k = (case map_of d k of None \<Rightarrow> Inl (KeyError k) | Some v \<Rightarrow> Inr v)"
| "py_subscript v k = Inl TypeError"

text \<open>\<^verbatim>\<open>s.lower()\<close>, exact on ASCII; other code points are left as they are.\<close>

definition lower_char :: "nat \<Rightarrow> nat" where
  "lower_char c = (if 65 \<le> c \<and> c \<le> 90 then c + 32 else c)"

definition lower :: "pystr \<Rightarrow> pystr" where
  "lower s = map lower_char s"

text \<open>\<^verbatim>\<open>data.get(k, '').lower()\<close>: the value must be a string to have \<^verbatim>\<open>lower\<close>.\<close>

definition get_lower :: "json \<Rightarrow> pystr \<Rightarrow> exn + pystr" where
  "get_lower data k =
     bnd (py_get data k (JStr []))
       (\<lambda>v. case v of JStr s \<Rightarrow> Inr (lower s) | _ \<Rightarrow> Inl AttributeError)"

text \<open>\<^verbatim>\<open>str(n)\<close> for an integer: its decimal digits, with a minus sign when negative.\<close>

function str_nat :: "nat \<Rightarrow> pystr" where
  "str_nat n = (if n < 10 then [48 + n] else str_nat (n div 10) @ [48 + n mod 10])"
  by pat_completeness auto
termination
  by (relation "measure id") auto

declare str_nat.simps [simp del]

definition str_int :: "int \<Rightarrow> pystr" where
  "str_int i = (if i < 0 then 45 # str_nat (nat (- i)) else str_nat (nat i))"

text \<open>\<^verbatim>\<open>max(lo, min(hi, x))\<close> on integers and on floats.\<close>

definition clamp_int :: "int \<Rightarrow> int \<Rightarrow> int \<Rightarrow> int" where
  "clamp_int lo hi x = max lo (min hi x)"

definition clamp_real :: "real \<Rightarrow> real \<Rightarrow> real \<Rightarrow> real" where
  "clamp_real lo hi x = max lo (min hi x)"

section \<open>Lead scoring worker: the rule-based scorer and the categories\<close>

text \<open>\<^verbatim>\<open>LeadScoringWorker.categorize_lead\<close>.\<close>

definition categorize_lead :: "int \<Rightarrow> pystr" where
  "categorize_lead score =
     (if score \<ge> 80 then str ''hot''
      else if score \<ge> 60 then str ''warm''
      else str ''cold'')"

text \<open>
  \<^verbatim>\<open>LeadScoringWorker.fallback_scoring\<close>, up to the dictionary it hands to
  \<^verbatim>\<open>json.dumps\<close>. \<open>fallback_score\<close> is the local \<^verbatim>\<open>score\<close> after the clamp
  of line 175; the four steps are the four \<^verbatim>\<open>if\<close> chains in the source's order.
\<close>

definition email_points :: "pystr \<Rightarrow> int" where
  "email_points email =
     (if list_ex (\<lambda>domain. contains domain email)
           [str ''gmail.com'', str ''yahoo.com'', str ''hotmail.com'']
      then - 10
      else if list_ex (\<lambda>domain. contains domain email) [str ''.edu'', str ''.gov'', str ''.org'']
      then 15
      else 5)"

definition company_size_points :: "pystr \<Rightarrow> int" where
  "company_size_points company_size =
     (if contains (str ''enterprise'') company_size \<or> contains (str ''1000+'') company_size
      then 20
      else if contains (str ''medium'') company_size \<or> contains (str ''100-1000'') company_size
      then 10
      else 0)"

definition title_points :: "pystr \<Rightarrow> int" where
  "title_points title =
     (if list_ex (\<lambda>role. contains role title)
           [str ''ceo'', str ''cto'', str ''vp'', str ''director'', str ''manager'']
      then 15 else 0)"

definition source_points :: "pystr \<Rightarrow> int" where
  "source_points source =
     (if source \<in> set [str ''referral'', str ''linkedin'', str ''conference''] then 10
      else if source \<in> set [str ''cold_email'', str ''advertisement''] then - 5
      else 0)"

definition fallback_score :: "json \<Rightarrow> exn + int" where
  "fallback_score data =
     bnd (get_lower data (str ''email'')) (\<lambda>email.
       let score = 50 + email_points email in
     bnd (get_lower data (str ''company_size'')) (\<lambda>company_size.
       let score = score + company_size_points company_size in
     bnd (get_lower data (str ''title'')) (\<lambda>title.
       let score = score + title_points title in
     bnd (get_lower data (str ''source'')) (\<lambda>source.
       let score = score + source_points source in
     Inr (clamp_int 0 100 score)))))"

definition fallback_analysis :: "json \<Rightarrow> exn + json" where
  "fallback_analysis data =
     bnd (fallback_score data) (\<lambda>score.
       let category = (if score \<ge> 80 then str ''hot''
                       else if score \<ge> 60 then str ''warm'' else str ''cold'')
       in Inr (JDict
         [(str ''score'', JInt score),
          (str ''category'', JStr category),
          (str ''reasoning'',
             JStr (str ''Rule-based scoring: '' @ str_int score
                   @ str ''/100 based on email domain, company size, title, and source'')),
          (str ''strengths'', JList [JStr (str ''Automated scoring available'')]),
          (str ''concerns'', JList [JStr (str ''AI analysis unavailable'')]),
          (str ''next_actions'',
             JList [JStr (str ''Follow up within 24 hours''),
                    JStr (str ''Qualify budget and timeline'')])]))"

section \<open>Regular expressions\<close>

text \<open>
  Every pattern the workers give to \<^verbatim>\<open>re\<close> is a sequence of character classes,
  each with a greedy repetition count, and \<^verbatim>\<open>\b\<close> assertions. \<open>match_here\<close> is
  the backtracking matcher of \<^verbatim>\<open>re\<close> on such a sequence: a repetition first takes as
  many characters as it can and gives them back one at a time until the rest of the
  pattern matches. It returns the length of the match. \<open>prev\<close> is the character
  before the current position, which \<^verbatim>\<open>\b\<close> needs.

  The classes \<^verbatim>\<open>\w\<close>, \<^verbatim>\<open>\s\<close> and \<^verbatim>\<open>\d\<close> are those of ASCII text.
\<close>

datatype item = Rep "nat \<Rightarrow> bool" nat "nat option" | WordB

definition is_word :: "nat \<Rightarrow> bool" where
  "is_word c = ((48 \<le> c \<and> c \<le> 57) \<or> (65 \<le> c \<and> c \<le> 90) \<or> (97 \<le> c \<and> c \<le> 122) \<or> c = 95)"

definition is_space :: "nat \<Rightarrow> bool" where
  "is_space c = ((9 \<le> c \<and> c \<le> 13) \<or> (28 \<le> c \<and> c \<le> 32))"

definition is_digit :: "nat \<Rightarrow> bool" where
  "is_digit c = (48 \<le> c \<and> c \<le> 57)"

definition at_boundary :: "nat option \<Rightarrow> pystr \<Rightarrow> bool" where
  "at_boundary prev s =
     ((case prev of None \<Rightarrow> False | Some c \<Rightarrow> is_word c)
      \<noteq> (case s of [] \<Rightarrow> False | c # _ \<Rightarrow> is_word c))"

fun first_some :: "'a option list \<Rightarrow> 'a option" where
  "first_some [] = None"
| "first_some (None # xs) = first_some xs"
| "first_some (Some x # xs) = Some x"

fun match_here :: "item list \<Rightarrow> nat option \<Rightarrow> pystr \<Rightarrow> nat option" where
  "match_here [] prev s = Some 0"
| "match_here (WordB # r) prev s = (if at_boundary prev s then match_here r prev s else None)"
| "match_here (Rep P lo hi # r) prev s =
     (let run = length (takeWhile P s);
          most = (case hi of None \<Rightarrow> run | Some h \<Rightarrow> min h run)
      in first_some
           (map (\<lambda>k. map_option (\<lambda>m. k + m)
                        (match_here r (if k = 0 then prev else Some (s ! (k - 1))) (drop k s)))
                (rev [lo ..< Suc most])))"

text \<open>
  \<^verbatim>\<open>re.findall\<close>: the matches from left to right, each search starting where the
  previous match ended. \<open>skip\<close> counts the characters of the last match still to
  pass. (No pattern of the workers matches the empty string.)
\<close>

fun scan :: "item list \<Rightarrow> nat option \<Rightarrow> pystr \<Rightarrow> nat \<Rightarrow> pystr list" where
  "scan pat prev [] skip = []"
| "scan pat prev (c # cs) skip =
     (if skip > 0 then scan pat (Some c) cs (skip - 1)
      else case match_here pat prev (c # cs) of
             None \<Rightarrow> scan pat (Some c) cs 0
           | Some n \<Rightarrow> take n (c # cs) # scan pat (Some c) cs (n - 1))"

definition findall :: "item list \<Rightarrow> pystr \<Rightarrow> pystr list" where
  "findall pat s = scan pat None s 0"

text \<open>A literal, and a literal under \<^verbatim>\<open>(?i)\<close>.\<close>

definition lits :: "pystr \<Rightarrow> item list" where
  "lits s = map (\<lambda>l. Rep (\<lambda>c. c = l) 1 (Some 1)) s"

definition ilits :: "pystr \<Rightarrow> item list" where
  "ilits s = map (\<lambda>l. Rep (\<lambda>c. lower_char c = lower_char l) 1 (Some 1)) s"

section \<open>The environment of a worker\<close>

text \<open>
  What a worker reads from outside its own code is a parameter: the library
  functions \<^verbatim>\<open>json.loads\<close> (\<open>None\<close> when it raises), \<^verbatim>\<open>json.dumps\<close>,
  \<^verbatim>\<open>int\<close> and \<^verbatim>\<open>float\<close> on a string (\<open>None\<close> when they raise), \<^verbatim>\<open>hash\<close>,
  \<^verbatim>\<open>str\<close> of a value that is not a string, the text of an interpreter exception;
  the AI service (the content of its first choice, or the exception of the call);
  whether Redis, the SQL session and Neo4j answer; the clock.
\<close>

record env =
  json_loads :: "pystr \<Rightarrow> json option"
  json_dumps :: "json \<Rightarrow> pystr"
  int_of_str :: "pystr \<Rightarrow> int option"
  float_of_str :: "pystr \<Rightarrow> real option"
  py_hash :: "json \<Rightarrow> int"
  py_repr :: "json \<Rightarrow> pystr"
  interp_text :: "exn \<Rightarrow> pystr"
  ai_complete :: "json \<Rightarrow> exn + json"
  ai_model :: pystr
  redis_up :: bool
  db_up :: bool
  neo4j_up :: bool
  now_unix :: int
  now_iso :: pystr

text \<open>
  What a worker changes outside itself: the \<^verbatim>\<open>setex\<close> calls Redis accepted (key,
  TTL, value), the queries Neo4j accepted (node label, parameters), and the
  requests made to the AI service (the lead the prompt was built from).
\<close>

record world =
  redis :: "(pystr \<times> nat \<times> pystr) list"
  graph :: "(pystr \<times> json) list"
  ai_requests :: "json list"

text \<open>\<^verbatim>\<open>str(e)\<close> and the value of \<^verbatim>\<open>{v}\<close> in an f-string.\<close>

definition exn_text :: "env \<Rightarrow> exn \<Rightarrow> pystr" where
  "exn_text E e =
     (case e of ValueError m \<Rightarrow> m | KeyError k \<Rightarrow> [39] @ k @ [39] | _ \<Rightarrow> interp_text E e)"

definition fmt :: "env \<Rightarrow> json \<Rightarrow> pystr" where
  "fmt E v = (case v of JStr s \<Rightarrow> s | _ \<Rightarrow> py_repr E v)"

text \<open>
  \<^verbatim>\<open>save_to_database\<close> of the blockchain and chat workers: one \<^verbatim>\<open>setex\<close> with a
  TTL of 3600 seconds inside \<^verbatim>\<open>try\<close>; any exception gives \<^verbatim>\<open>False\<close>.
\<close>

definition save_to_database :: "env \<Rightarrow> pystr \<Rightarrow> json \<Rightarrow> world \<Rightarrow> bool \<times> world" where
  "save_to_database E worker_type data w =
     (case py_subscript data (str ''id'') of
        Inl e \<Rightarrow> (False, w)
      | Inr i \<Rightarrow>
          let key = str ''processed:'' @ worker_type @ str '':'' @ fmt E i in
          if redis_up E
          then (True, w\<lparr>redis := redis w @ [(key, 3600, json_dumps E data)]\<rparr>)
          else (False, w))"

section \<open>Lead scoring worker: the pipeline\<close>

text \<open>\<^verbatim>\<open>LeadScoringWorker.validate_event\<close> and \<^verbatim>\<open>ChatAnalysisWorker.validate_event\<close>:
  \<^verbatim>\<open>all(field in event_data and event_data[field] for field in required_fields)\<close>.
  \<open>required\<close> is one step of the generator; \<^verbatim>\<open>all\<close> stops at the first false one.\<close>

definition required :: "json \<Rightarrow> pystr \<Rightarrow> exn + bool" where
  "required event_data field =
     bnd (py_in field event_data) (\<lambda>present.
       if present then bnd (py_subscript event_data field) (\<lambda>v. Inr (truthy v))
       else Inr False)"

fun all_required :: "json \<Rightarrow> pystr list \<Rightarrow> exn + bool" where
  "all_required event_data [] = Inr True"
| "all_required event_data (field # rest) =
     bnd (required event_data field) (\<lambda>ok.
       if ok then all_required event_data rest else Inr False)"

definition lead_validate_event :: "json \<Rightarrow> exn + bool" where
  "lead_validate_event event_data = all_required event_data [str ''name'', str ''email'']"

text \<open>\<^verbatim>\<open>fallback_scoring\<close> returns the text \<^verbatim>\<open>json.dumps\<close> makes of the dictionary.\<close>

definition fallback_scoring :: "env \<Rightarrow> json \<Rightarrow> exn + json" where
  "fallback_scoring E data = bnd (fallback_analysis data) (\<lambda>d. Inr (JStr (json_dumps E d)))"

text \<open>
  \<^verbatim>\<open>analyze_lead_with_ai\<close>. The prompt is built with \<^verbatim>\<open>data.get\<close>, which only a
  dictionary has; then the request is made. Whatever the \<^verbatim>\<open>try\<close> block raises
  leads to \<^verbatim>\<open>fallback_scoring\<close>, whose own exception is not caught here.
\<close>

definition analyze_lead_with_ai :: "env \<Rightarrow> json \<Rightarrow> world \<Rightarrow> (exn + json) \<times> world" where
  "analyze_lead_with_ai E data w =
     (case data of
        JDict d \<Rightarrow>
          (let w1 = w\<lparr>ai_requests := ai_requests w @ [data]\<rparr> in
           case ai_complete E data of
             Inr content \<Rightarrow> (Inr content, w1)
           | Inl e \<Rightarrow> (fallback_scoring E data, w1))
      | _ \<Rightarrow> (fallback_scoring E data, w))"

text \<open>\<^verbatim>\<open>int(x)\<close>: truncation of a float towards zero, the parse of a string.\<close>

definition py_int :: "env \<Rightarrow> json \<Rightarrow> exn + int" where
  "py_int E v =
     (case v of
        JInt i \<Rightarrow> Inr i
      | JBool b \<Rightarrow> Inr (if b then 1 else 0)
      | JFloat r \<Rightarrow> Inr (if r \<ge> 0 then \<lfloor>r\<rfloor> else \<lceil>r\<rceil>)
      | JStr s \<Rightarrow> (case int_of_str E s of None \<Rightarrow> Inl ConversionError | Some i \<Rightarrow> Inr i)
      | _ \<Rightarrow> Inl TypeError)"

text \<open>
  \<^verbatim>\<open>extract_score_from_analysis\<close>. First \<^verbatim>\<open>int(json.loads(ai_analysis).get('score', 50))\<close>;
  on any exception the pattern \<^verbatim>\<open>"score":\s*(\d+)\<close> is searched in the text and its
  group converted; without a match the score is 50. \<^verbatim>\<open>json.loads\<close> and
  \<^verbatim>\<open>re.search\<close> both raise \<^verbatim>\<open>TypeError\<close> when the analysis is not a string.
\<close>

definition score_pattern :: "item list" where
  "score_pattern =
     lits (34 # str ''score'' @ [34, 58]) @ [Rep is_space 0 None, Rep is_digit 1 None]"

definition nat_of_digits :: "pystr \<Rightarrow> nat" where
  "nat_of_digits ds = foldl (\<lambda>acc c. 10 * acc + (c - 48)) 0 ds"

definition score_by_json :: "env \<Rightarrow> json \<Rightarrow> exn + int" where
  "score_by_json E ai_analysis =
     (case ai_analysis of
        JStr text \<Rightarrow>
          (case json_loads E text of
             None \<Rightarrow> Inl JSONDecodeError
           | Some analysis_data \<Rightarrow>
               bnd (py_get analysis_data (str ''score'') (JInt 50)) (py_int E))
      | _ \<Rightarrow> Inl TypeError)"

definition score_by_regex :: "json \<Rightarrow> exn + int" where
  "score_by_regex ai_analysis =
     (case ai_analysis of
        JStr text \<Rightarrow>
          (case findall score_pattern text of
             [] \<Rightarrow> Inr 50
           | m # _ \<Rightarrow> Inr (int (nat_of_digits (dropWhile is_space (drop 8 m)))))
      | _ \<Rightarrow> Inl TypeError)"

definition extract_score_from_analysis :: "env \<Rightarrow> json \<Rightarrow> exn + int" where
  "extract_score_from_analysis E ai_analysis =
     (case score_by_json E ai_analysis of
        Inr score \<Rightarrow> Inr score
      | Inl e \<Rightarrow> score_by_regex ai_analysis)"

text \<open>\<^verbatim>\<open>get_recommendations\<close>.\<close>

definition get_recommendations :: "pystr \<Rightarrow> int \<Rightarrow> json" where
  "get_recommendations category score =
     (if category = str ''hot'' then
        JList [JStr (str ''Contact within 1 hour''), JStr (str ''Schedule demo call''),
               JStr (str ''Send personalized proposal''), JStr (str ''Assign to senior sales rep'')]
      else if category = str ''warm'' then
        JList [JStr (str ''Follow up within 24 hours''), JStr (str ''Send relevant case studies''),
               JStr (str ''Schedule discovery call''), JStr (str ''Add to nurture campaign'')]
      else
        JList [JStr (str ''Add to long-term nurture sequence''), JStr (str ''Send educational content''),
               JStr (str ''Follow up in 1 week''), JStr (str ''Qualify budget and timeline'')])"

text \<open>
  \<^verbatim>\<open>LeadScoringWorker.save_to_database\<close>: the \<^verbatim>\<open>setex\<close>, then a SQL session is
  opened and closed in the same \<^verbatim>\<open>try\<close>; the write to Redis stays when that fails.
\<close>

definition lead_save_to_database :: "env \<Rightarrow> json \<Rightarrow> world \<Rightarrow> bool \<times> world" where
  "lead_save_to_database E data w =
     (case save_to_database E (str ''lead_scoring'') data w of
        (ok, w1) \<Rightarrow> (ok \<and> db_up E, w1))"

text \<open>
  \<^verbatim>\<open>LeadScoringWorker.update_graph_relationships\<close>: one query with these parameters;
  every exception is logged and dropped.
\<close>

definition lead_graph_params :: "json \<Rightarrow> exn + json" where
  "lead_graph_params data =
     bnd (py_get data (str ''original_data'') (JDict [])) (\<lambda>original_data.
     bnd (py_subscript data (str ''id'')) (\<lambda>lead_id.
     bnd (py_get original_data (str ''name'') (JStr [])) (\<lambda>name.
     bnd (py_get original_data (str ''email'') (JStr [])) (\<lambda>email.
     bnd (py_get original_data (str ''company'') (JStr [])) (\<lambda>company.
     bnd (py_subscript data (str ''processed_at'')) (\<lambda>processed_at.
       Inr (JDict
         [(str ''lead_id'', lead_id),
          (str ''name'', name),
          (str ''email'', email),
          (str ''company'', company),
          (str ''score'', dict_get (case data of JDict d \<Rightarrow> d | _ \<Rightarrow> []) (str ''lead_score'') (JInt 0)),
          (str ''category'', dict_get (case data of JDict d \<Rightarrow> d | _ \<Rightarrow> []) (str ''category'') (JStr [])),
          (str ''processed_at'', processed_at),
          (str ''user_id'', dict_get (case data of JDict d \<Rightarrow> d | _ \<Rightarrow> []) (str ''processed_by'') (JInt 0))])))))))"

definition lead_update_graph_relationships :: "env \<Rightarrow> json \<Rightarrow> world \<Rightarrow> world" where
  "lead_update_graph_relationships E data w =
     (if neo4j_up E then
        (case lead_graph_params data of
           Inl e \<Rightarrow> w
         | Inr params \<Rightarrow> w\<lparr>graph := graph w @ [(str ''Lead'', params)]\<rparr>)
      else w)"

text \<open>
  \<^verbatim>\<open>LeadScoringWorker.process_event\<close>. \<open>lead_try\<close> is the \<^verbatim>\<open>try\<close> block: it ends
  with the dictionary returned or with the exception that left the block, and the
  world as it was at that moment. \<open>lead_process_event\<close> adds the handler; \<open>Inl\<close>
  there is an exception that leaves \<^verbatim>\<open>process_event\<close> itself.
\<close>

definition bnd_w ::
  "(exn + 'a) \<times> world \<Rightarrow> ('a \<Rightarrow> world \<Rightarrow> (exn + 'b) \<times> world) \<Rightarrow> (exn + 'b) \<times> world" where
  "bnd_w m f = (case m of (Inl e, w) \<Rightarrow> (Inl e, w) | (Inr v, w) \<Rightarrow> f v w)"

definition lead_try :: "env \<Rightarrow> json \<Rightarrow> world \<Rightarrow> (exn + json) \<times> world" where
  "lead_try E event_data w =
     bnd_w (py_subscript event_data (str ''data''), w) (\<lambda>data w.
     bnd_w (py_get event_data (str ''user_id'') JNull, w) (\<lambda>user_id w.
     bnd_w (lead_validate_event data, w) (\<lambda>valid w.
       if \<not> valid
       then (Inl (ValueError (str ''Invalid lead data: missing required fields'')), w)
       else
     bnd_w (analyze_lead_with_ai E data w) (\<lambda>ai_analysis w1.
     bnd_w (extract_score_from_analysis E ai_analysis, w1) (\<lambda>lead_score w1.
       let category = categorize_lead lead_score;
           processed_data = JDict
             [(str ''id'', JStr (str ''lead_'' @ str_int (now_unix E))),
              (str ''type'', JStr (str ''lead_scoring'')),
              (str ''original_data'', data),
              (str ''ai_analysis'', ai_analysis),
              (str ''lead_score'', JInt lead_score),
              (str ''category'', JStr category),
              (str ''model_used'', JStr (ai_model E)),
              (str ''processed_at'', JStr (now_iso E)),
              (str ''processed_by'', user_id),
              (str ''worker'', JStr (str ''lead_scoring_worker'')),
              (str ''recommendations'', get_recommendations category lead_score)];
           w2 = snd (lead_save_to_database E processed_data w1);
           w3 = lead_update_graph_relationships E processed_data w2
       in (Inr processed_data, w3))))))"

definition lead_process_event :: "env \<Rightarrow> json \<Rightarrow> world \<Rightarrow> (exn + json) \<times> world" where
  "lead_process_event E event_data w =
     (case lead_try E event_data w of
        (Inr processed_data, w1) \<Rightarrow> (Inr processed_data, w1)
      | (Inl e, w1) \<Rightarrow>
          (case py_get event_data (str ''data'') (JDict []) of
             Inl e2 \<Rightarrow> (Inl e2, w1)
           | Inr original_data \<Rightarrow>
               let error_data = JDict
                     [(str ''id'', JStr (str ''lead_error_'' @ str_int (now_unix E))),
                      (str ''type'', JStr (str ''lead_scoring_error'')),
                      (str ''error'', JStr (exn_text E e)),
                      (str ''original_data'', original_data),
                      (str ''processed_at'', JStr (now_iso E)),
                      (str ''worker'', JStr (str ''lead_scoring_worker''))];
                   w2 = snd (lead_save_to_database E error_data w1)
               in (Inr error_data, w2)))"

section \<open>Chat analysis worker: the analyzers\<close>

text \<open>
  \<^verbatim>\<open>round(x, n)\<close> on a float: the nearest multiple of \<open>10\<^sup>-\<^sup>n\<close>, a tie going to
  the even one.
\<close>

definition round_half_even :: "real \<Rightarrow> int" where
  "round_half_even x =
     (let f = \<lfloor>x\<rfloor>; d = x - of_int f
      in if d < 1 / 2 then f
         else if d > 1 / 2 then f + 1
         else if even f then f else f + 1)"

definition round_nd :: "nat \<Rightarrow> real \<Rightarrow> real" where
  "round_nd n x = of_int (round_half_even (x * 10 ^ n)) / 10 ^ n"

text \<open>The word lists of \<^verbatim>\<open>load_positive_words\<close>, \<^verbatim>\<open>load_negative_words\<close> and
  \<^verbatim>\<open>load_toxic_words\<close>; the workers only test membership.\<close>

definition positive_words :: "pystr list" where
  "positive_words = map str
     [''good'', ''great'', ''awesome'', ''amazing'', ''excellent'', ''fantastic'',
      ''wonderful'', ''brilliant'', ''outstanding'', ''superb'', ''perfect'',
      ''love'', ''like'', ''enjoy'', ''happy'', ''excited'', ''thrilled'',
      ''bullish'', ''moon'', ''rocket'', ''gem'', ''diamond'', ''hands'',
      ''hodl'', ''buy'', ''pump'', ''green'', ''profit'', ''gains'',
      ''best'', ''top'', ''winner'', ''success'', ''victory'', ''champion'',
      ''positive'', ''optimistic'', ''confident'', ''strong'', ''solid'',
      ''thank'', ''thanks'', ''grateful'', ''appreciate'', ''blessed'']"

definition negative_words :: "pystr list" where
  "negative_words = map str
     [''bad'', ''terrible'', ''awful'', ''horrible'', ''disgusting'', ''hate'',
      ''dislike'', ''angry'', ''mad'', ''furious'', ''disappointed'', ''sad'',
      ''bearish'', ''dump'', ''crash'', ''red'', ''loss'', ''losses'',
      ''scam'', ''fraud'', ''fake'', ''lie'', ''lying'', ''cheat'',
      ''worst'', ''bottom'', ''loser'', ''failure'', ''defeat'', ''disaster'',
      ''negative'', ''pessimistic'', ''worried'', ''concerned'', ''afraid'',
      ''panic'', ''fear'', ''scared'', ''anxious'', ''stressed'', ''broken'']"

definition toxic_words :: "pystr list" where
  "toxic_words = map str
     [''spam'', ''scam'', ''fraud'', ''fake'', ''bot'', ''shill'',
      ''pump'', ''dump'', ''rugpull'', ''ponzi'', ''pyramid'',
      ''hate'', ''toxic'', ''troll'', ''fud'', ''manipulation'',
      ''stupid'', ''idiot'', ''moron'', ''dumb'', ''retard'',
      ''kill'', ''die'', ''death'', ''suicide'', ''harm'']"

text \<open>\<^verbatim>\<open>tokenize_message\<close>: \<^verbatim>\<open>re.findall(r'\b\w+\b', message.lower())\<close>.\<close>

definition tokenize_message :: "pystr \<Rightarrow> pystr list" where
  "tokenize_message message = findall [WordB, Rep is_word 1 None, WordB] (lower message)"

definition count_in :: "pystr list \<Rightarrow> pystr list \<Rightarrow> nat" where
  "count_in vocabulary ws = length (filter (\<lambda>word. word \<in> set vocabulary) ws)"

text \<open>
  \<^verbatim>\<open>analyze_sentiment\<close>. \<open>sentiment_score\<close> and \<open>sentiment_label\<close> are the
  locals \<^verbatim>\<open>score\<close> and \<^verbatim>\<open>label\<close> of lines 174 to 187, as functions of the
  tokens; the dictionary returned holds the score rounded to three places.
\<close>

definition sentiment_score :: "pystr list \<Rightarrow> real" where
  "sentiment_score ws =
     (let positive_count = count_in positive_words ws;
          negative_count = count_in negative_words ws
      in if positive_count + negative_count = 0 then 0
         else clamp_real (- 1) 1
                ((real positive_count - real negative_count) / real (length ws)))"

definition sentiment_label :: "pystr list \<Rightarrow> pystr" where
  "sentiment_label ws =
     (let positive_count = count_in positive_words ws;
          negative_count = count_in negative_words ws
      in if positive_count + negative_count = 0 then str ''neutral''
         else if sentiment_score ws > 0.1 then str ''positive''
         else if sentiment_score ws < - 0.1 then str ''negative''
         else str ''neutral'')"

definition sentiment_confidence :: "pystr list \<Rightarrow> real" where
  "sentiment_confidence ws =
     min 1 (real (count_in positive_words ws + count_in negative_words ws)
            / real (max 1 (length ws)))"

definition analyze_sentiment :: "pystr \<Rightarrow> json" where
  "analyze_sentiment message =
     (let ws = tokenize_message message;
          positive_count = count_in positive_words ws;
          negative_count = count_in negative_words ws
      in JDict
        [(str ''score'',
            if positive_count + negative_count = 0 then JInt 0
            else JFloat (round_nd 3 (sentiment_score ws))),
         (str ''label'', JStr (sentiment_label ws)),
         (str ''confidence'', JFloat (round_nd 3 (sentiment_confidence ws))),
         (str ''positive_words'', JInt (int positive_count)),
         (str ''negative_words'', JInt (int negative_count)),
         (str ''details'', JDict
            [(str ''positive_matches'',
                JList (map JStr (filter (\<lambda>word. word \<in> set positive_words) ws))),
             (str ''negative_matches'',
                JList (map JStr (filter (\<lambda>word. word \<in> set negative_words) ws)))])])"

text \<open>\<^verbatim>\<open>detect_toxicity\<close>; \<open>toxicity_score\<close> is line 212, \<open>categorize_toxicity\<close>
  the method of that name.\<close>

definition toxicity_score :: "nat \<Rightarrow> nat \<Rightarrow> real" where
  "toxicity_score toxic_count word_count =
     min 1 (real toxic_count / real (max 1 word_count) * 10)"

definition categorize_toxicity :: "pystr list \<Rightarrow> json" where
  "categorize_toxicity toxic_matches =
     (let hate_words = map str [''hate'', ''toxic'', ''stupid'', ''idiot'', ''moron'', ''dumb''];
          spam_words = map str [''spam'', ''scam'', ''fraud'', ''fake'', ''bot'', ''shill''];
          threat_words = map str [''kill'', ''die'', ''death'', ''suicide'', ''harm'']
      in JList
        ((if list_ex (\<lambda>word. word \<in> set hate_words) toxic_matches
          then [JStr (str ''hate_speech'')] else [])
         @ (if list_ex (\<lambda>word. word \<in> set spam_words) toxic_matches
            then [JStr (str ''spam'')] else [])
         @ (if list_ex (\<lambda>word. word \<in> set threat_words) toxic_matches
            then [JStr (str ''threats'')] else [])))"

definition toxicity_level :: "real \<Rightarrow> pystr" where
  "toxicity_level score =
     (if score > 0.7 then str ''high''
      else if score > 0.3 then str ''medium''
      else if score > 0 then str ''low''
      else str ''none'')"

definition detect_toxicity :: "pystr \<Rightarrow> json" where
  "detect_toxicity message =
     (let ws = tokenize_message message;
          toxic_matches = filter (\<lambda>word. word \<in> set toxic_words) ws;
          toxic_count = length toxic_matches;
          score = toxicity_score toxic_count (length ws)
      in JDict
        [(str ''is_toxic'', JBool (score > 0.3)),
         (str ''score'', JFloat (round_nd 3 score)),
         (str ''level'', JStr (toxicity_level score)),
         (str ''confidence'',
            JFloat (min 1 (real toxic_count / real (max 1 (length ws)) * 5))),
         (str ''toxic_words'', JList (map JStr toxic_matches)),
         (str ''categories'', categorize_toxicity toxic_matches)])"

text \<open>
  \<^verbatim>\<open>load_spam_patterns\<close>: each pattern with its text, which \<^verbatim>\<open>detect_spam\<close>
  reports as the indicator. \<open>gap\<close> is \<^verbatim>\<open>\s+\<close>; code point 92 is the backslash.
\<close>

definition gap :: "item list" where
  "gap = [Rep is_space 1 None]"

definition url_pattern :: "item list" where
  "url_pattern =
     lits (str ''http'') @ [Rep (\<lambda>c. c = 115) 0 (Some 1)] @ lits (str ''://'')
     @ [Rep (\<lambda>c. \<not> is_space c) 1 None]"

definition spam_patterns :: "(pystr \<times> item list) list" where
  "spam_patterns =
     [(str ''(?i)click'' @ [92] @ str ''s+here'', ilits (str ''click'') @ gap @ ilits (str ''here'')),
      (str ''(?i)free'' @ [92] @ str ''s+money'', ilits (str ''free'') @ gap @ ilits (str ''money'')),
      (str ''(?i)guaranteed'' @ [92] @ str ''s+profit'',
         ilits (str ''guaranteed'') @ gap @ ilits (str ''profit'')),
      (str ''(?i)100%'' @ [92] @ str ''s+returns?'',
         ilits (str ''100%'') @ gap @ ilits (str ''return'')
         @ [Rep (\<lambda>c. lower_char c = 115) 0 (Some 1)]),
      (str ''(?i)risk'' @ [92] @ str ''s+free'', ilits (str ''risk'') @ gap @ ilits (str ''free'')),
      (str ''(?i)limited'' @ [92] @ str ''s+time'', ilits (str ''limited'') @ gap @ ilits (str ''time'')),
      (str ''(?i)act'' @ [92] @ str ''s+now'', ilits (str ''act'') @ gap @ ilits (str ''now'')),
      (str ''(?i)dm'' @ [92] @ str ''s+me'', ilits (str ''dm'') @ gap @ ilits (str ''me'')),
      (str ''(?i)private'' @ [92] @ str ''s+message'',
         ilits (str ''private'') @ gap @ ilits (str ''message'')),
      (str ''https?://[^'' @ [92] @ str ''s]+'', url_pattern),
      (str ''(?i)telegram'' @ [92] @ str ''.me'', ilits (str ''telegram.me'')),
      (str ''(?i)whatsapp'' @ [92] @ str ''.com'', ilits (str ''whatsapp.com''))]"

text \<open>\<^verbatim>\<open>detect_spam\<close>; \<open>spam_score\<close> is line 255.\<close>

definition spam_indicators :: "pystr \<Rightarrow> pystr list" where
  "spam_indicators message =
     map fst (filter (\<lambda>(text, pat). findall pat message \<noteq> []) spam_patterns)
     @ (if length message > 500 then [str ''excessive_length''] else [])
     @ (if count_list message 33 > 5 then [str ''excessive_punctuation''] else [])
     @ (if real (length (remdups (lower message))) / real (max 1 (length message)) < 0.3
        then [str ''low_diversity''] else [])"

definition spam_score :: "nat \<Rightarrow> real" where
  "spam_score indicator_count = min 1 (real indicator_count / 5)"

definition detect_spam :: "pystr \<Rightarrow> json" where
  "detect_spam message =
     (let indicators = spam_indicators message;
          score = spam_score (length indicators)
      in JDict
        [(str ''is_spam'', JBool (score > 0.5)),
         (str ''score'', JFloat (round_nd 3 score)),
         (str ''confidence'', JFloat (min 1 (real (length indicators) / 3))),
         (str ''indicators'', JList (map JStr indicators)),
         (str ''risk_level'',
            JStr (if score > 0.7 then str ''high''
                  else if score > 0.3 then str ''medium'' else str ''low''))])"

text \<open>\<^verbatim>\<open>extract_keywords\<close>: \<^verbatim>\<open>list(dict.fromkeys(keywords))[:10]\<close> keeps the first
  occurrence of each keyword, in order.\<close>

definition stop_words :: "pystr list" where
  "stop_words = map str
     [''the'', ''a'', ''an'', ''and'', ''or'', ''but'', ''in'', ''on'', ''at'', ''to'', ''for'',
      ''of'', ''with'', ''by'', ''is'', ''are'', ''was'', ''were'', ''be'', ''been'', ''being'',
      ''have'', ''has'', ''had'', ''do'', ''does'', ''did'', ''will'', ''would'', ''could'',
      ''should'', ''may'', ''might'', ''must'', ''can'', ''this'', ''that'', ''these'', ''those'']"

definition extract_keywords :: "pystr \<Rightarrow> json" where
  "extract_keywords message =
     (let keywords = filter (\<lambda>word. length word > 3 \<and> word \<notin> set stop_words)
                       (tokenize_message message)
      in JList (map JStr (take 10 (rev (remdups (rev keywords))))))"

text \<open>
  \<^verbatim>\<open>extract_entities\<close>. The patterns for mentions and hashtags have one group, the
  word after the sign, which \<^verbatim>\<open>findall\<close> returns in place of the match. Only the
  entries with a non-empty list are kept.
\<close>

definition is_alnum :: "nat \<Rightarrow> bool" where
  "is_alnum c = ((48 \<le> c \<and> c \<le> 57) \<or> (65 \<le> c \<and> c \<le> 90) \<or> (97 \<le> c \<and> c \<le> 122))"

definition mention_pattern :: "item list" where
  "mention_pattern = [Rep (\<lambda>c. c = 64) 1 (Some 1), Rep is_word 1 None]"

definition hashtag_pattern :: "item list" where
  "hashtag_pattern = [Rep (\<lambda>c. c = 35) 1 (Some 1), Rep is_word 1 None]"

definition email_pattern :: "item list" where
  "email_pattern =
     [WordB,
      Rep (\<lambda>c. is_alnum c \<or> c \<in> set (str ''._%+-'')) 1 None,
      Rep (\<lambda>c. c = 64) 1 (Some 1),
      Rep (\<lambda>c. is_alnum c \<or> c \<in> set (str ''.-'')) 1 None,
      Rep (\<lambda>c. c = 46) 1 (Some 1),
      Rep (\<lambda>c. (65 \<le> c \<and> c \<le> 90) \<or> c = 124 \<or> (97 \<le> c \<and> c \<le> 122)) 2 None,
      WordB]"

definition phone_pattern :: "item list" where
  "phone_pattern =
     [WordB,
      Rep is_digit 3 (Some 3), Rep (\<lambda>c. c = 45 \<or> c = 46) 0 (Some 1),
      Rep is_digit 3 (Some 3), Rep (\<lambda>c. c = 45 \<or> c = 46) 0 (Some 1),
      Rep is_digit 4 (Some 4),
      WordB]"

definition crypto_pattern :: "item list" where
  "crypto_pattern =
     [WordB,
      Rep (\<lambda>c. c = 49 \<or> c = 51) 1 (Some 1),
      Rep (\<lambda>c. (97 \<le> c \<and> c \<le> 107) \<or> (109 \<le> c \<and> c \<le> 122) \<or> (65 \<le> c \<and> c \<le> 72)
               \<or> (74 \<le> c \<and> c \<le> 78) \<or> (80 \<le> c \<and> c \<le> 90) \<or> (49 \<le> c \<and> c \<le> 57))
          25 (Some 34),
      WordB]"

definition extract_entities :: "pystr \<Rightarrow> json" where
  "extract_entities message =
     (let entities =
            [(str ''mentions'', map tl (findall mention_pattern message)),
             (str ''hashtags'', map tl (findall hashtag_pattern message)),
             (str ''urls'', findall url_pattern message),
             (str ''emails'', findall email_pattern message),
             (str ''phone_numbers'', findall phone_pattern message),
             (str ''crypto_addresses'', findall crypto_pattern message)]
      in JDict (map (\<lambda>(k, v). (k, JList (map JStr v))) (filter (\<lambda>(k, v). v \<noteq> []) entities)))"

text \<open>
  \<^verbatim>\<open>calculate_engagement_score\<close>, from the message it reads in \<^verbatim>\<open>data\<close>. Code points
  63, 33, 64 and 35 are the question mark, the exclamation mark, the at sign and the
  hash sign; the four ranges of \<open>is_emoji\<close> are those of the source's character class.
\<close>

definition is_emoji :: "nat \<Rightarrow> bool" where
  "is_emoji c =
     ((0x1F600 \<le> c \<and> c \<le> 0x1F64F) \<or> (0x1F300 \<le> c \<and> c \<le> 0x1F5FF)
      \<or> (0x1F680 \<le> c \<and> c \<le> 0x1F6FF) \<or> (0x1F1E0 \<le> c \<and> c \<le> 0x1F1FF))"

definition length_points :: "nat \<Rightarrow> int" where
  "length_points n =
     (if 50 \<le> n \<and> n \<le> 200 then 10
      else if n > 500 then - 10
      else if n < 10 then - 5
      else 0)"

definition calculate_engagement_score :: "pystr \<Rightarrow> int" where
  "calculate_engagement_score message =
     (let score = 50;
          score = score + length_points (length message);
          score = score + min 10 (int (count_list message 63) * 5);
          score = score + min 10 (int (count_list message 33) * 2);
          mentions = length (findall mention_pattern message);
          score = score + min 15 (int mentions * 5);
          hashtags = length (findall hashtag_pattern message);
          score = score + min 10 (int hashtags * 3);
          emojis = length (findall [Rep is_emoji 1 (Some 1)] message);
          score = score + min 15 (int emojis * 3)
      in max 0 (min 100 score))"

text \<open>\<^verbatim>\<open>detect_language\<close> and \<^verbatim>\<open>get_message_stats\<close>. \<^verbatim>\<open>re.split\<close> on a
  pattern that matches \<open>k\<close> times gives \<open>k + 1\<close> pieces.\<close>

definition detect_language :: "pystr \<Rightarrow> json" where
  "detect_language message =
     (let english_words = map str [''the'', ''and'', ''or'', ''but'', ''is'', ''are'', ''was'',
                                   ''were'', ''have'', ''has''];
          ws = tokenize_message message;
          english_ratio = real (count_in english_words ws) / real (max 1 (length ws))
      in if english_ratio > 0.1
         then JDict [(str ''language'', JStr (str ''en'')),
                     (str ''confidence'', JFloat (round_nd 3 (min 1 (english_ratio * 2))))]
         else JDict [(str ''language'', JStr (str ''unknown'')),
                     (str ''confidence'', JFloat (round_nd 3 0.5))])"

definition get_message_stats :: "pystr \<Rightarrow> json" where
  "get_message_stats message =
     (let ws = tokenize_message message
      in JDict
        [(str ''character_count'', JInt (int (length message))),
         (str ''word_count'', JInt (int (length ws))),
         (str ''sentence_count'',
            JInt (int (length (findall [Rep (\<lambda>c. c \<in> set (str ''.!?'')) 1 None] message)) + 1)),
         (str ''avg_word_length'',
            JFloat (round_nd 2 (real (sum_list (map length ws)) / real (max 1 (length ws))))),
         (str ''uppercase_ratio'',
            JFloat (round_nd 3 (real (length (filter (\<lambda>c. 65 \<le> c \<and> c \<le> 90) message))
                                / real (max 1 (length message))))),
         (str ''punctuation_count'',
            JInt (int (length (findall [Rep (\<lambda>c. \<not> is_word c \<and> \<not> is_space c) 1 (Some 1)] message))))])"

text \<open>\<^verbatim>\<open>get_moderation_flags\<close> and \<^verbatim>\<open>generate_insights\<close>, from the entries they read
  in the dictionaries of the analyzers.\<close>

definition get_moderation_flags :: "bool \<Rightarrow> pystr \<Rightarrow> bool \<Rightarrow> json" where
  "get_moderation_flags is_toxic level is_spam =
     (let flags = (if is_toxic then [str ''toxic_content''] else [])
                  @ (if is_spam then [str ''spam_content''] else []);
          actions = (if is_toxic
                     then [if level = str ''high'' then str ''auto_remove'' else str ''flag_for_review'']
                     else [])
                    @ (if is_spam then [str ''flag_for_review''] else [])
      in JDict
        [(str ''flags'', JList (map JStr flags)),
         (str ''recommended_actions'', JList (map JStr actions)),
         (str ''requires_human_review'', JBool (length flags > 0)),
         (str ''auto_moderate'', JBool (str ''auto_remove'' \<in> set actions))])"

definition generate_insights :: "pystr \<Rightarrow> real \<Rightarrow> bool \<Rightarrow> int \<Rightarrow> json" where
  "generate_insights label confidence is_toxic engagement =
     JList (map JStr
       ((if label = str ''positive'' \<and> engagement > 70
         then [str ''High-engagement positive message - potential viral content''] else [])
        @ (if label = str ''negative'' \<and> confidence > 0.7
           then [str ''Strong negative sentiment detected - monitor for escalation''] else [])
        @ (if is_toxic then [str ''Toxic content detected - requires moderation''] else [])
        @ (if engagement > 80 then [str ''High engagement potential - consider promoting'']
           else if engagement < 30 then [str ''Low engagement - content may need improvement'']
           else [])))"

section \<open>Chat analysis worker: the pipeline\<close>

definition chat_validate_event :: "json \<Rightarrow> exn + bool" where
  "chat_validate_event event_data = all_required event_data [str ''message'', str ''user'']"

text \<open>\<^verbatim>\<open>ChatAnalysisWorker.update_graph_relationships\<close>: one query with these
  parameters; every exception is logged and dropped.\<close>

definition chat_graph_params :: "json \<Rightarrow> exn + json" where
  "chat_graph_params data =
     bnd (py_subscript data (str ''id'')) (\<lambda>message_id.
     bnd (py_get data (str ''message'') (JStr [])) (\<lambda>content.
     bnd (py_get data (str ''analysis'') (JDict [])) (\<lambda>analysis.
     bnd (py_get analysis (str ''sentiment'') (JDict [])) (\<lambda>sentiment.
     bnd (py_get sentiment (str ''label'') (JStr [])) (\<lambda>label.
     bnd (py_get analysis (str ''engagement_score'') (JInt 0)) (\<lambda>engagement.
     bnd (py_subscript data (str ''processed_at'')) (\<lambda>processed_at.
     bnd (py_get data (str ''user'') (JStr [])) (\<lambda>username.
     bnd (py_get data (str ''channel'') (JStr [])) (\<lambda>channel.
     bnd (py_get data (str ''processed_by'') (JInt 0)) (\<lambda>processor_id.
       Inr (JDict
         [(str ''message_id'', message_id),
          (str ''content'', content),
          (str ''sentiment'', label),
          (str ''engagement'', engagement),
          (str ''processed_at'', processed_at),
          (str ''username'', username),
          (str ''channel'', channel),
          (str ''processor_id'', processor_id)])))))))))))"

definition chat_update_graph_relationships :: "env \<Rightarrow> json \<Rightarrow> world \<Rightarrow> world" where
  "chat_update_graph_relationships E data w =
     (if neo4j_up E then
        (case chat_graph_params data of
           Inl e \<Rightarrow> w
         | Inr params \<Rightarrow> w\<lparr>graph := graph w @ [(str ''ChatMessage'', params)]\<rparr>)
      else w)"

text \<open>
  \<^verbatim>\<open>ChatAnalysisWorker.process_event\<close>. The first analyzer called,
  \<^verbatim>\<open>analyze_sentiment\<close>, starts with \<^verbatim>\<open>message.lower()\<close>, which only a string
  has: \<open>as_text\<close> is that step. On a string no analyzer raises.
\<close>

definition as_text :: "json \<Rightarrow> exn + pystr" where
  "as_text v = (case v of JStr s \<Rightarrow> Inr s | _ \<Rightarrow> Inl AttributeError)"

definition chat_analysis :: "pystr \<Rightarrow> json" where
  "chat_analysis message =
     JDict
       [(str ''sentiment'', analyze_sentiment message),
        (str ''toxicity'', detect_toxicity message),
        (str ''spam'', detect_spam message),
        (str ''keywords'', extract_keywords message),
        (str ''entities'', extract_entities message),
        (str ''language'', detect_language message),
        (str ''engagement_score'', JInt (calculate_engagement_score message)),
        (str ''message_stats'', get_message_stats message)]"

definition chat_try :: "env \<Rightarrow> json \<Rightarrow> world \<Rightarrow> (exn + json) \<times> world" where
  "chat_try E event_data w =
     bnd_w (py_subscript event_data (str ''data''), w) (\<lambda>data w.
     bnd_w (py_get event_data (str ''user_id'') JNull, w) (\<lambda>user_id w.
     bnd_w (chat_validate_event data, w) (\<lambda>valid w.
       if \<not> valid then (Inl (ValueError (str ''Invalid chat event data'')), w) else
     bnd_w (py_get data (str ''message'') (JStr []), w) (\<lambda>message_value w.
     bnd_w (py_get data (str ''user'') (JStr (str ''Unknown'')), w) (\<lambda>user w.
     bnd_w (py_get data (str ''channel'') (JStr (str ''general'')), w) (\<lambda>channel w.
     bnd_w (py_get data (str ''platform'') (JStr (str ''unknown'')), w) (\<lambda>platform w.
     bnd_w (as_text message_value, w) (\<lambda>message w.
       let ws = tokenize_message message;
           toxicity = toxicity_score (count_in toxic_words ws) (length ws);
           is_spam = (spam_score (length (spam_indicators message)) > 0.5);
           engagement_score = calculate_engagement_score message;
           processed_data = JDict
             [(str ''id'', JStr (str ''chat_'' @ str_int (now_unix E))),
              (str ''type'', JStr (str ''chat_analysis'')),
              (str ''original_data'', data),
              (str ''message'', message_value),
              (str ''user'', user),
              (str ''channel'', channel),
              (str ''platform'', platform),
              (str ''analysis'', chat_analysis message),
              (str ''moderation'',
                 get_moderation_flags (toxicity > 0.3) (toxicity_level toxicity) is_spam),
              (str ''insights'',
                 generate_insights (sentiment_label ws) (round_nd 3 (sentiment_confidence ws))
                   (toxicity > 0.3) engagement_score),
              (str ''processed_at'', JStr (now_iso E)),
              (str ''processed_by'', user_id),
              (str ''worker'', JStr (str ''chat_analysis_worker''))];
           w2 = snd (save_to_database E (str ''chat_analysis'') processed_data w);
           w3 = chat_update_graph_relationships E processed_data w2
       in (Inr processed_data, w3)))))))))"

definition chat_process_event :: "env \<Rightarrow> json \<Rightarrow> world \<Rightarrow> (exn + json) \<times> world" where
  "chat_process_event E event_data w =
     (case chat_try E event_data w of
        (Inr processed_data, w1) \<Rightarrow> (Inr processed_data, w1)
      | (Inl e, w1) \<Rightarrow>
          (case py_get event_data (str ''data'') (JDict []) of
             Inl e2 \<Rightarrow> (Inl e2, w1)
           | Inr original_data \<Rightarrow>
               let error_data = JDict
                     [(str ''id'', JStr (str ''chat_error_'' @ str_int (now_unix E))),
                      (str ''type'', JStr (str ''chat_analysis_error'')),
                      (str ''error'', JStr (exn_text E e)),
                      (str ''original_data'', original_data),
                      (str ''processed_at'', JStr (now_iso E)),
                      (str ''worker'', JStr (str ''chat_analysis_worker''))];
                   w2 = snd (save_to_database E (str ''chat_analysis'') error_data w1)
               in (Inr error_data, w2)))"

section \<open>Blockchain worker: lookups and sub-analyzers\<close>

text \<open>\<^verbatim>\<open>float(x)\<close>, \<^verbatim>\<open>hash(x)\<close> (lists and dictionaries are unhashable), \<^verbatim>\<open>a + b\<close>,
  \<^verbatim>\<open>s.upper()\<close> on ASCII, and \<^verbatim>\<open>d.update(...)\<close>, which keeps the place of a key
  already present and appends a new one.\<close>

definition py_float :: "env \<Rightarrow> json \<Rightarrow> exn + real" where
  "py_float E v =
     (case v of
        JInt i \<Rightarrow> Inr (of_int i)
      | JFloat r \<Rightarrow> Inr r
      | JBool b \<Rightarrow> Inr (if b then 1 else 0)
      | JStr s \<Rightarrow> (case float_of_str E s of None \<Rightarrow> Inl ConversionError | Some r \<Rightarrow> Inr r)
      | _ \<Rightarrow> Inl TypeError)"

definition hash_of :: "env \<Rightarrow> json \<Rightarrow> exn + int" where
  "hash_of E v = (case v of JList xs \<Rightarrow> Inl TypeError | JDict d \<Rightarrow> Inl TypeError | _ \<Rightarrow> Inr (py_hash E v))"

fun py_add :: "json \<Rightarrow> json \<Rightarrow> exn + json" where
  "py_add (JStr a) (JStr b) = Inr (JStr (a @ b))"
| "py_add (JList a) (JList b) = Inr (JList (a @ b))"
| "py_add (JInt a) (JInt b) = Inr (JInt (a + b))"
| "py_add (JInt a) (JBool b) = Inr (JInt (a + (if b then 1 else 0)))"
| "py_add (JBool a) (JInt b) = Inr (JInt ((if a then 1 else 0) + b))"
| "py_add (JBool a) (JBool b) = Inr (JInt ((if a then 1 else 0) + (if b then 1 else 0)))"
| "py_add (JFloat a) (JFloat b) = Inr (JFloat (a + b))"
| "py_add (JFloat a) (JInt b) = Inr (JFloat (a + of_int b))"
| "py_add (JInt a) (JFloat b) = Inr (JFloat (of_int a + b))"
| "py_add (JFloat a) (JBool b) = Inr (JFloat (a + (if b then 1 else 0)))"
| "py_add (JBool a) (JFloat b) = Inr (JFloat ((if a then 1 else 0) + b))"
| "py_add a b = Inl TypeError"

definition upper :: "pystr \<Rightarrow> pystr" where
  "upper s = map (\<lambda>c. if 97 \<le> c \<and> c \<le> 122 then c - 32 else c) s"

fun dict_set :: "pystr \<Rightarrow> json \<Rightarrow> (pystr \<times> json) list \<Rightarrow> (pystr \<times> json) list" where
  "dict_set k v [] = [(k, v)]"
| "dict_set k v ((k', v') # d) = (if k' = k then (k, v) # d else (k', v') # dict_set k v d)"

definition dict_update :: "(pystr \<times> json) list \<Rightarrow> (pystr \<times> json) list \<Rightarrow> (pystr \<times> json) list" where
  "dict_update d kvs = foldl (\<lambda>acc (k, v). dict_set k v acc) d kvs"

text \<open>The value of a JSON number, for the comparisons and the arithmetic on it.\<close>

definition num_value :: "json \<Rightarrow> real" where
  "num_value v = (case v of JInt i \<Rightarrow> of_int i | JFloat r \<Rightarrow> r | _ \<Rightarrow> 0)"

text \<open>
  \<^verbatim>\<open>get_market_data\<close>, \<^verbatim>\<open>get_token_info\<close> and \<^verbatim>\<open>get_transaction_details\<close>: the
  simulated lookups, with the dictionary each returns when its \<^verbatim>\<open>try\<close> block raises.
  \<^verbatim>\<open>max(0.1, h % 10)\<close> is the integer \<open>h % 10\<close> from 1 on and the float 0.1 at 0.
\<close>

definition get_market_data :: "env \<Rightarrow> json \<Rightarrow> json" where
  "get_market_data E collection =
     (case hash_of E collection of
        Inr h \<Rightarrow>
          JDict
            [(str ''floor_price'', if h mod 10 \<ge> 1 then JInt (h mod 10) else JFloat 0.1),
             (str ''volume_24h'', JInt (max 100 (h mod 10000))),
             (str ''trend'',
                JStr (if h mod 3 = 0 then str ''bullish''
                      else if h mod 3 = 1 then str ''bearish'' else str ''neutral'')),
             (str ''holders'', JInt (max 100 (h mod 5000))),
             (str ''total_supply'', JInt (max 1000 (h mod 10000)))]
      | Inl e \<Rightarrow>
          JDict [(str ''floor_price'', JInt 0), (str ''volume_24h'', JInt 0),
                 (str ''trend'', JStr (str ''neutral''))])"

definition get_token_info :: "env \<Rightarrow> json \<Rightarrow> json" where
  "get_token_info E token =
     (case token of
        JStr s \<Rightarrow>
          JDict
            [(str ''name'', JStr (str ''Token '' @ take 8 s)),
             (str ''symbol'', JStr (upper (take 4 s))),
             (str ''price_usd'', JFloat (max 0.01 (of_int (py_hash E token mod 1000) / 100))),
             (str ''market_cap'', JInt (max 1000000 (py_hash E token mod 100000000))),
             (str ''volume_24h'', JInt (max 10000 (py_hash E token mod 1000000)))]
      | _ \<Rightarrow>
          JDict [(str ''name'', JStr (str ''Unknown'')), (str ''symbol'', JStr (str ''UNK'')),
                 (str ''price_usd'', JInt 0)])"

definition get_transaction_details :: "env \<Rightarrow> json \<Rightarrow> json" where
  "get_transaction_details E signature =
     (case hash_of E signature of
        Inr h \<Rightarrow>
          JDict
            [(str ''block_height'', JInt (h mod 1000000)),
             (str ''timestamp'', JStr (now_iso E)),
             (str ''fee'', JFloat (of_int (h mod 100) / 1000000)),
             (str ''status'', JStr (str ''confirmed''))]
      | Inl e \<Rightarrow> JDict [(str ''status'', JStr (str ''unknown''))])"

text \<open>\<^verbatim>\<open>categorize_price\<close>, \<^verbatim>\<open>categorize_swap_size\<close> and the three insight
  generators.\<close>

definition categorize_price :: "real \<Rightarrow> pystr" where
  "categorize_price premium_percentage =
     (if premium_percentage > 50 then str ''premium''
      else if premium_percentage > 0 then str ''above_floor''
      else if premium_percentage > - 20 then str ''near_floor''
      else str ''below_floor'')"

definition categorize_swap_size :: "real \<Rightarrow> pystr" where
  "categorize_swap_size usd_value =
     (if usd_value > 100000 then str ''whale''
      else if usd_value > 10000 then str ''large''
      else if usd_value > 1000 then str ''medium''
      else str ''small'')"

definition generate_nft_insights :: "real \<Rightarrow> real \<Rightarrow> real \<Rightarrow> json" where
  "generate_nft_insights price floor_price premium =
     JList (map JStr
       ((if premium > 100 then [str ''Exceptional premium sale - potential rare trait'']
         else if premium > 50 then [str ''High premium sale - strong buyer interest'']
         else if premium < - 10 then [str ''Below floor sale - potential distressed seller'']
         else [])
        @ (if price > 10 then [str ''High-value transaction - monitor for market impact'']
           else [])))"

definition generate_transfer_insights :: "real \<Rightarrow> real \<Rightarrow> real \<Rightarrow> json" where
  "generate_transfer_insights amount usd_value risk_score =
     JList (map JStr
       ((if usd_value > 100000 then [str ''Large transfer detected - potential whale movement'']
         else [])
        @ (if risk_score > 80 then [str ''High risk transfer - review for compliance'']
           else [])))"

definition generate_swap_insights :: "real \<Rightarrow> real \<Rightarrow> json" where
  "generate_swap_insights usd_value slippage =
     JList (map JStr
       ((if slippage > 5 then [str ''High slippage detected - large trade or low liquidity'']
         else [])
        @ (if usd_value > 50000 then [str ''Large swap - potential market impact''] else [])))"

text \<open>
  \<^verbatim>\<open>process_nft_sale\<close>. \<open>nft_premium\<close> is the local \<^verbatim>\<open>premium_percentage\<close> of
  lines 114 to 116, as a function of the price and the floor price.
  \<open>nft_sale_body\<close> is the \<^verbatim>\<open>try\<close> block; the handler turns whatever it raises
  into a dictionary with an \<^verbatim>\<open>error\<close> entry.
\<close>

definition nft_premium :: "real \<Rightarrow> real \<Rightarrow> real" where
  "nft_premium price floor_price =
     (if floor_price > 0 then ((price - floor_price) / floor_price) * 100 else 0)"

definition nft_sale_body :: "env \<Rightarrow> json \<Rightarrow> exn + json" where
  "nft_sale_body E data =
     bnd (py_get data (str ''collection'') (JStr (str ''Unknown''))) (\<lambda>collection.
     bnd (py_get data (str ''token_id'') (JStr (str ''Unknown''))) (\<lambda>token_id.
     bnd (py_get data (str ''price'') (JInt 0)) (\<lambda>price_value.
     bnd (py_float E price_value) (\<lambda>price.
     bnd (py_get data (str ''currency'') (JStr (str ''SOL''))) (\<lambda>currency.
     bnd (py_get data (str ''buyer'') (JStr (str ''Unknown''))) (\<lambda>buyer.
     bnd (py_get data (str ''seller'') (JStr (str ''Unknown''))) (\<lambda>seller.
     bnd (py_get data (str ''signature'') (JStr [])) (\<lambda>signature.
       let market_data = get_market_data E collection;
           transaction_details =
             (if truthy signature then get_transaction_details E signature else JDict []);
           floor_value = dict_get (case market_data of JDict d \<Rightarrow> d | _ \<Rightarrow> [])
                           (str ''floor_price'') (JInt 0);
           floor_price = num_value floor_value;
           premium_percentage = nft_premium price floor_price
       in Inr (JDict
            [(str ''sale_id'', JStr (str ''nft_sale_'' @ str_int (now_unix E))),
             (str ''collection'', collection),
             (str ''token_id'', token_id),
             (str ''price'', JFloat price),
             (str ''currency'', currency),
             (str ''buyer'', buyer),
             (str ''seller'', seller),
             (str ''signature'', signature),
             (str ''transaction_details'', transaction_details),
             (str ''market_data'', market_data),
             (str ''analysis'', JDict
                [(str ''floor_price'', floor_value),
                 (str ''premium_percentage'',
                    if floor_price > 0 then JFloat (round_nd 2 premium_percentage) else JInt 0),
                 (str ''price_category'', JStr (categorize_price premium_percentage)),
                 (str ''market_trend'',
                    dict_get (case market_data of JDict d \<Rightarrow> d | _ \<Rightarrow> [])
                      (str ''trend'') (JStr (str ''neutral''))),
                 (str ''volume_24h'',
                    dict_get (case market_data of JDict d \<Rightarrow> d | _ \<Rightarrow> [])
                      (str ''volume_24h'') (JInt 0))]),
             (str ''insights'', generate_nft_insights price floor_price premium_percentage)])))))))))"

definition process_nft_sale :: "env \<Rightarrow> json \<Rightarrow> exn + json" where
  "process_nft_sale E data =
     (case nft_sale_body E data of
        Inr result \<Rightarrow> Inr result
      | Inl e \<Rightarrow>
          bnd (py_get data (str ''collection'') (JStr (str ''Unknown''))) (\<lambda>collection.
          bnd (py_get data (str ''price'') (JInt 0)) (\<lambda>price_value.
            Inr (JDict
              [(str ''sale_id'', JStr (str ''nft_sale_error_'' @ str_int (now_unix E))),
               (str ''error'', JStr (exn_text E e)),
               (str ''collection'', collection),
               (str ''price'', price_value)]))))"

text \<open>\<^verbatim>\<open>analyze_transfer_pattern\<close> and \<^verbatim>\<open>process_token_transfer\<close>.\<close>

definition analyze_transfer_pattern :: "env \<Rightarrow> json \<Rightarrow> json \<Rightarrow> real \<Rightarrow> exn + json" where
  "analyze_transfer_pattern E from_addr to_addr amount =
     bnd (py_add from_addr to_addr) (\<lambda>both.
     bnd (hash_of E both) (\<lambda>h.
       Inr (JDict
         [(str ''transfer_type'', JStr (str ''peer_to_peer'')),
          (str ''amount_category'',
             JStr (if amount > 1000 then str ''large''
                   else if amount > 100 then str ''medium'' else str ''small'')),
          (str ''risk_score'', JInt (min 100 (max 0 (h mod 100)))),
          (str ''pattern'', JStr (str ''normal''))])))"

definition token_transfer_body :: "env \<Rightarrow> json \<Rightarrow> exn + json" where
  "token_transfer_body E data =
     bnd (py_get data (str ''from'') (JStr (str ''Unknown''))) (\<lambda>from_address.
     bnd (py_get data (str ''to'') (JStr (str ''Unknown''))) (\<lambda>to_address.
     bnd (py_get data (str ''amount'') (JInt 0)) (\<lambda>amount_value.
     bnd (py_float E amount_value) (\<lambda>amount.
     bnd (py_get data (str ''token'') (JStr (str ''Unknown''))) (\<lambda>token.
     bnd (py_get data (str ''signature'') (JStr [])) (\<lambda>signature.
       let token_info = get_token_info E token;
           price_usd = dict_get (case token_info of JDict d \<Rightarrow> d | _ \<Rightarrow> [])
                         (str ''price_usd'') JNull;
           usd_value = (if truthy price_usd then amount * num_value price_usd else 0)
       in
     bnd (analyze_transfer_pattern E from_address to_address amount) (\<lambda>transfer_analysis.
       Inr (JDict
         [(str ''transfer_id'', JStr (str ''token_transfer_'' @ str_int (now_unix E))),
          (str ''from_address'', from_address),
          (str ''to_address'', to_address),
          (str ''amount'', JFloat amount),
          (str ''token'', token),
          (str ''signature'', signature),
          (str ''token_info'', token_info),
          (str ''usd_value'',
             if truthy price_usd then JFloat (round_nd 2 usd_value) else JInt 0),
          (str ''analysis'', transfer_analysis),
          (str ''insights'',
             generate_transfer_insights amount usd_value
               (num_value (dict_get (case transfer_analysis of JDict d \<Rightarrow> d | _ \<Rightarrow> [])
                             (str ''risk_score'') (JInt 0))))]))))))))"

definition process_token_transfer :: "env \<Rightarrow> json \<Rightarrow> exn + json" where
  "process_token_transfer E data =
     (case token_transfer_body E data of
        Inr result \<Rightarrow> Inr result
      | Inl e \<Rightarrow>
          bnd (py_get data (str ''token'') (JStr (str ''Unknown''))) (\<lambda>token.
          bnd (py_get data (str ''amount'') (JInt 0)) (\<lambda>amount_value.
            Inr (JDict
              [(str ''transfer_id'', JStr (str ''token_transfer_error_'' @ str_int (now_unix E))),
               (str ''error'', JStr (exn_text E e)),
               (str ''token'', token),
               (str ''amount'', amount_value)]))))"

text \<open>\<^verbatim>\<open>process_defi_swap\<close>.\<close>

definition defi_swap_body :: "env \<Rightarrow> json \<Rightarrow> exn + json" where
  "defi_swap_body E data =
     bnd (py_get data (str ''user'') (JStr (str ''Unknown''))) (\<lambda>user_address.
     bnd (py_get data (str ''token_in'') (JStr (str ''Unknown''))) (\<lambda>token_in.
     bnd (py_get data (str ''token_out'') (JStr (str ''Unknown''))) (\<lambda>token_out.
     bnd (py_get data (str ''amount_in'') (JInt 0)) (\<lambda>amount_in_value.
     bnd (py_float E amount_in_value) (\<lambda>amount_in.
     bnd (py_get data (str ''amount_out'') (JInt 0)) (\<lambda>amount_out_value.
     bnd (py_float E amount_out_value) (\<lambda>amount_out.
     bnd (py_get data (str ''dex'') (JStr (str ''Unknown''))) (\<lambda>dex.
       let token_in_info = get_token_info E token_in;
           token_out_info = get_token_info E token_out;
           usd_value_in = amount_in * num_value
             (dict_get (case token_in_info of JDict d \<Rightarrow> d | _ \<Rightarrow> []) (str ''price_usd'') (JInt 0));
           usd_value_out = amount_out * num_value
             (dict_get (case token_out_info of JDict d \<Rightarrow> d | _ \<Rightarrow> []) (str ''price_usd'') (JInt 0));
           slippage = (if usd_value_in > 0
                       then ((usd_value_in - usd_value_out) / usd_value_in) * 100 else 0)
       in Inr (JDict
            [(str ''swap_id'', JStr (str ''defi_swap_'' @ str_int (now_unix E))),
             (str ''user_address'', user_address),
             (str ''token_in'', token_in),
             (str ''token_out'', token_out),
             (str ''amount_in'', JFloat amount_in),
             (str ''amount_out'', JFloat amount_out),
             (str ''dex'', dex),
             (str ''token_in_info'', token_in_info),
             (str ''token_out_info'', token_out_info),
             (str ''analysis'', JDict
                [(str ''usd_value_in'', JFloat (round_nd 2 usd_value_in)),
                 (str ''usd_value_out'', JFloat (round_nd 2 usd_value_out)),
                 (str ''slippage_percentage'',
                    if usd_value_in > 0 then JFloat (round_nd 2 slippage) else JInt 0),
                 (str ''swap_category'', JStr (categorize_swap_size usd_value_in))]),
             (str ''insights'', generate_swap_insights usd_value_in slippage)])))))))))"

definition process_defi_swap :: "env \<Rightarrow> json \<Rightarrow> exn + json" where
  "process_defi_swap E data =
     (case defi_swap_body E data of
        Inr result \<Rightarrow> Inr result
      | Inl e \<Rightarrow>
          bnd (py_get data (str ''dex'') (JStr (str ''Unknown''))) (\<lambda>dex.
            Inr (JDict
              [(str ''swap_id'', JStr (str ''defi_swap_error_'' @ str_int (now_unix E))),
               (str ''error'', JStr (exn_text E e)),
               (str ''dex'', dex)])))"

section \<open>Blockchain worker: the pipeline\<close>

text \<open>\<^verbatim>\<open>BlockchainWorker.validate_event\<close>:
  \<^verbatim>\<open>all(field in event_data for field in ["event_type"])\<close>.\<close>

definition blockchain_validate_event :: "json \<Rightarrow> exn + bool" where
  "blockchain_validate_event event_data = py_in (str ''event_type'') event_data"

text \<open>\<^verbatim>\<open>BlockchainWorker.update_graph_relationships\<close>: one query with these
  parameters; every exception is logged and dropped.\<close>

definition blockchain_graph_params :: "env \<Rightarrow> json \<Rightarrow> exn + json" where
  "blockchain_graph_params E data =
     bnd (py_subscript data (str ''id'')) (\<lambda>event_id.
     bnd (py_get data (str ''type'') (JStr (str ''blockchain_event''))) (\<lambda>event_type.
     bnd (py_subscript data (str ''processed_at'')) (\<lambda>processed_at.
     bnd (py_get data (str ''processed_by'') (JInt 0)) (\<lambda>user_id.
       Inr (JDict
         [(str ''event_id'', event_id),
          (str ''event_type'', event_type),
          (str ''processed_at'', processed_at),
          (str ''data'', JStr (json_dumps E data)),
          (str ''user_id'', user_id)])))))"

definition blockchain_update_graph_relationships :: "env \<Rightarrow> json \<Rightarrow> world \<Rightarrow> world" where
  "blockchain_update_graph_relationships E data w =
     (if neo4j_up E then
        (case blockchain_graph_params E data of
           Inl e \<Rightarrow> w
         | Inr params \<Rightarrow> w\<lparr>graph := graph w @ [(str ''BlockchainEvent'', params)]\<rparr>)
      else w)"

text \<open>
  \<^verbatim>\<open>BlockchainWorker.process_event\<close>: the dispatch on \<^verbatim>\<open>event_type\<close>, then the
  metadata written over the dictionary of the sub-analyzer with \<^verbatim>\<open>update\<close>.
\<close>

definition dispatch_event :: "env \<Rightarrow> json \<Rightarrow> json \<Rightarrow> exn + json" where
  "dispatch_event E event_type data =
     (if event_type = JStr (str ''nft_sale'') then process_nft_sale E data
      else if event_type = JStr (str ''token_transfer'') then process_token_transfer E data
      else if event_type = JStr (str ''defi_swap'') then process_defi_swap E data
      else Inl (ValueError (str ''Unknown blockchain event type: '' @ fmt E event_type)))"

definition blockchain_try :: "env \<Rightarrow> json \<Rightarrow> world \<Rightarrow> (exn + json) \<times> world" where
  "blockchain_try E event_data w =
     bnd_w (py_subscript event_data (str ''data''), w) (\<lambda>data w.
     bnd_w (py_get event_data (str ''user_id'') JNull, w) (\<lambda>user_id w.
     bnd_w (blockchain_validate_event data, w) (\<lambda>valid w.
       if \<not> valid then (Inl (ValueError (str ''Invalid blockchain event data'')), w) else
     bnd_w (py_get data (str ''event_type'') (JStr (str ''unknown'')), w) (\<lambda>event_type w.
     bnd_w (dispatch_event E event_type data, w) (\<lambda>sub_result w.
       let processed_data = JDict
             (dict_update (case sub_result of JDict d \<Rightarrow> d | _ \<Rightarrow> [])
                [(str ''id'', JStr (str ''blockchain_'' @ str_int (now_unix E))),
                 (str ''type'', JStr (str ''blockchain_event'')),
                 (str ''original_data'', data),
                 (str ''processed_at'', JStr (now_iso E)),
                 (str ''processed_by'', user_id),
                 (str ''worker'', JStr (str ''blockchain_worker''))]);
           w2 = snd (save_to_database E (str ''blockchain_events'') processed_data w);
           w3 = blockchain_update_graph_relationships E processed_data w2
       in (Inr processed_data, w3))))))"

definition blockchain_process_event :: "env \<Rightarrow> json \<Rightarrow> world \<Rightarrow> (exn + json) \<times> world" where
  "blockchain_process_event E event_data w =
     (case blockchain_try E event_data w of
        (Inr processed_data, w1) \<Rightarrow> (Inr processed_data, w1)
      | (Inl e, w1) \<Rightarrow>
          (case py_get event_data (str ''data'') (JDict []) of
             Inl e2 \<Rightarrow> (Inl e2, w1)
           | Inr original_data \<Rightarrow>
               let error_data = JDict
                     [(str ''id'', JStr (str ''blockchain_error_'' @ str_int (now_unix E))),
                      (str ''type'', JStr (str ''blockchain_error'')),
                      (str ''error'', JStr (exn_text E e)),
                      (str ''original_data'', original_data),
                      (str ''processed_at'', JStr (now_iso E)),
                      (str ''worker'', JStr (str ''blockchain_worker''))];
                   w2 = snd (save_to_database E (str ''blockchain_events'') error_data w1)
               in (Inr error_data, w2)))"

section \<open>Thresholds as the specification words them, and a test double\<close>

text \<open>The category thresholds of the specification: hot from 80, warm from 60 to
  below 80, cold below 60.\<close>

definition category_matches :: "pystr \<Rightarrow> int \<Rightarrow> bool" where
  "category_matches category score =
     ((category = str ''hot'' \<longleftrightarrow> score \<ge> 80) \<and>
      (category = str ''warm'' \<longleftrightarrow> 60 \<le> score \<and> score < 80) \<and>
      (category = str ''cold'' \<longleftrightarrow> score < 60))"

text \<open>
  An environment for concrete runs: the AI service is down, Redis, SQL and Neo4j
  answer, \<^verbatim>\<open>json.dumps\<close> writes only the score of a dictionary and
  \<^verbatim>\<open>json.loads\<close> rejects every text, so that a score is read back by the pattern.
\<close>

definition demo_dumps :: "json \<Rightarrow> pystr" where
  "demo_dumps v =
     (case py_get v (str ''score'') JNull of
        Inr (JInt n) \<Rightarrow> [123, 34] @ str ''score'' @ [34, 58, 32] @ str_int n @ [125]
      | _ \<Rightarrow> str ''{}'')"

definition demo_env :: env where
  "demo_env =
     \<lparr>json_loads = (\<lambda>text. None), json_dumps = demo_dumps,
      int_of_str = (\<lambda>s. None), float_of_str = (\<lambda>s. None),
      py_hash = (\<lambda>v. 3), py_repr = (\<lambda>v. str ''?''), interp_text = (\<lambda>e. str ''error''),
      ai_complete = (\<lambda>data. Inl ServiceError), ai_model = str ''anthropic/claude-3-haiku'',
      redis_up = True, db_up = True, neo4j_up = True,
      now_unix = 1700000000, now_iso = str ''2023-11-14T22:13:20''\<rparr>"

definition world0 :: world where
  "world0 = \<lparr>redis = [], graph = [], ai_requests = []\<rparr>"

text \<open>The lead of the specification's scenario B, and an envelope around a lead with a name.\<close>

definition scenario_b :: json where
  "scenario_b =
     JDict [(str ''email'', JStr (str ''x@acmecorp.com'')),
            (str ''company_size'', JStr (str ''1000+ employees'')),
            (str ''title'', JStr (str ''VP of Sales'')),
            (str ''source'', JStr (str ''linkedin''))]"

definition gmail_lead :: json where
  "gmail_lead =
     JDict [(str ''name'', JStr (str ''Ann'')),
            (str ''email'', JStr (str ''ann@gmail.com'')),
            (str ''company_size'', JStr (str ''Medium'')),
            (str ''source'', JStr (str ''cold_email''))]"

definition envelope :: "pystr \<Rightarrow> json \<Rightarrow> json" where
  "envelope event_type data =
     JDict [(str ''event_type'', JStr event_type), (str ''data'', data),
            (str ''user_id'', JInt 7), (str ''user_email'', JStr (str ''ops@example.com''))]"

text \<open>The message of the specification's scenario A.\<close>

definition scenario_a :: pystr where
  "scenario_a = str ''good great amazing!!! @alice #win''"

text \<open>The engagement formula as the specification words it, on the six counts
  it names.\<close>

definition spec_engagement ::
  "nat \<Rightarrow> nat \<Rightarrow> nat \<Rightarrow> nat \<Rightarrow> nat \<Rightarrow> nat \<Rightarrow> int" where
  "spec_engagement chars questionmarks exclamations mentions hashtags emoji_count =
     max 0 (min 100
       (50
        + (if 50 \<le> chars \<and> chars \<le> 200 then 10
           else if chars > 500 then - 10
           else if chars < 10 then - 5 else 0)
        + min 10 (int questionmarks * 5)
        + min 10 (int exclamations * 2)
        + min 15 (int mentions * 5)
        + min 10 (int hashtags * 3)
        + min 15 (int emoji_count * 3)))"


definition broken_sale :: json where
  "broken_sale =
     JDict [(str ''event_type'', JStr (str ''nft_sale'')),
            (str ''collection'', JStr (str ''apes'')),
            (str ''price'', JStr (str ''abc''))]"


section \<open>Terminal results and their effects\<close>

text \<open>
  The two shapes of a terminal result. Both carry \<^verbatim>\<open>id\<close>, \<^verbatim>\<open>type\<close>,
  \<^verbatim>\<open>original_data\<close>, \<^verbatim>\<open>processed_at\<close> and \<^verbatim>\<open>worker\<close>; a processed result has the
  worker's own type and \<^verbatim>\<open>processed_by\<close>, an error result has the error type and a
  string under \<^verbatim>\<open>error\<close>.
\<close>

definition has_key :: "json \<Rightarrow> pystr \<Rightarrow> bool" where
  "has_key r k = (case py_subscript r k of Inr v \<Rightarrow> True | Inl e \<Rightarrow> False)"

definition has_text :: "json \<Rightarrow> pystr \<Rightarrow> bool" where
  "has_text r k = (case py_subscript r k of Inr (JStr s) \<Rightarrow> True | _ \<Rightarrow> False)"

definition is_processed_result :: "pystr \<Rightarrow> pystr \<Rightarrow> json \<Rightarrow> bool" where
  "is_processed_result type_name worker r =
     (py_subscript r (str ''type'') = Inr (JStr type_name)
      \<and> py_subscript r (str ''worker'') = Inr (JStr worker)
      \<and> has_text r (str ''id'')
      \<and> has_key r (str ''original_data'')
      \<and> has_text r (str ''processed_at'')
      \<and> has_key r (str ''processed_by''))"

definition is_error_result :: "pystr \<Rightarrow> pystr \<Rightarrow> json \<Rightarrow> bool" where
  "is_error_result error_type worker r =
     (py_subscript r (str ''type'') = Inr (JStr error_type)
      \<and> py_subscript r (str ''worker'') = Inr (JStr worker)
      \<and> has_text r (str ''id'')
      \<and> has_text r (str ''error'')
      \<and> has_key r (str ''original_data'')
      \<and> has_text r (str ''processed_at''))"

text \<open>The \<^verbatim>\<open>setex\<close> call that stores a result: key, TTL and value.\<close>

definition cache_entry :: "env \<Rightarrow> pystr \<Rightarrow> json \<Rightarrow> pystr \<times> nat \<times> pystr" where
  "cache_entry E worker_type r =
     (str ''processed:'' @ worker_type @ str '':''
        @ (case py_subscript r (str ''id'') of Inr i \<Rightarrow> fmt E i | Inl e \<Rightarrow> []),
      3600, json_dumps E r)"


text \<open>
  A run that ends in the error result for the exception \<open>e\<close>, with no analysis in
  it, no request to the AI service, no write to the graph, and one write to the
  cache, of the error result.
\<close>

definition error_outcome ::
  "env \<Rightarrow> pystr \<Rightarrow> pystr \<Rightarrow> pystr \<Rightarrow> exn \<Rightarrow> world \<Rightarrow> (exn + json) \<times> world \<Rightarrow> bool" where
  "error_outcome E worker_type error_type worker e w out =
     (case out of
        (Inr r, w') \<Rightarrow>
          is_error_result error_type worker r
          \<and> py_subscript r (str ''error'') = Inr (JStr (exn_text E e))
          \<and> \<not> has_key r (str ''analysis'')
          \<and> \<not> has_key r (str ''ai_analysis'')
          \<and> \<not> has_key r (str ''lead_score'')
          \<and> ai_requests w' = ai_requests w
          \<and> graph w' = graph w
          \<and> redis w' = (if redis_up E then redis w @ [cache_entry E worker_type r] else redis w)
      | (Inl e2, w') \<Rightarrow> False)"

text \<open>
  A run of the blockchain worker that ends on its success path although the
  sub-analyzer raised \<open>e\<close>: the result has the type and the id of a processed
  event, and the \<^verbatim>\<open>error\<close> entry of the sub-analyzer.
\<close>

definition degraded_outcome :: "env \<Rightarrow> exn \<Rightarrow> world \<Rightarrow> (exn + json) \<times> world \<Rightarrow> bool" where
  "degraded_outcome E e w out =
     (case out of
        (Inr r, w') \<Rightarrow>
          py_subscript r (str ''type'') = Inr (JStr (str ''blockchain_event''))
          \<and> py_subscript r (str ''id'') = Inr (JStr (str ''blockchain_'' @ str_int (now_unix E)))
          \<and> py_subscript r (str ''error'') = Inr (JStr (exn_text E e))
          \<and> is_processed_result (str ''blockchain_event'') (str ''blockchain_worker'') r
          \<and> \<not> is_error_result (str ''blockchain_error'') (str ''blockchain_worker'') r
          \<and> redis w' = (if redis_up E
                         then redis w @ [cache_entry E (str ''blockchain_events'') r]
                         else redis w)
      | (Inl e2, w') \<Rightarrow> False)"

text \<open>The exception a failed validation leaves the \<^verbatim>\<open>try\<close> block with: the one
  \<^verbatim>\<open>validate_event\<close> raised, or the worker's own \<^verbatim>\<open>ValueError\<close>.\<close>

definition validation_exn :: "pystr \<Rightarrow> exn + bool \<Rightarrow> exn" where
  "validation_exn message v = (case v of Inl e \<Rightarrow> e | Inr ok \<Rightarrow> ValueError message)"

text \<open>
  Two AI services for concrete runs: one answers the JSON text \<^verbatim>\<open>{"score": 150}\<close>,
  which \<^verbatim>\<open>json.loads\<close> reads; the other answers prose holding \<^verbatim>\<open>"score": 999\<close>,
  which \<^verbatim>\<open>json.loads\<close> rejects.
\<close>

definition ai_text_150 :: pystr where
  "ai_text_150 = [123, 34] @ str ''score'' @ [34, 58, 32] @ str ''150}''"

definition ai_text_999 :: pystr where
  "ai_text_999 = str ''I rate this lead '' @ [34] @ str ''score'' @ [34, 58, 32] @ str ''999 of 100''"

definition json_env :: env where
  "json_env =
     demo_env\<lparr>ai_complete := (\<lambda>data. Inr (JStr ai_text_150)),
               json_loads := (\<lambda>text. if text = ai_text_150
                                      then Some (JDict [(str ''score'', JInt 150)]) else None)\<rparr>"

definition prose_env :: env where
  "prose_env = demo_env\<lparr>ai_complete := (\<lambda>data. Inr (JStr ai_text_999))\<rparr>"

text \<open>Payloads that fail validation, an event of unknown type, and a transfer whose
  amount is not a number.\<close>

definition nameless_lead :: json where
  "nameless_lead = JDict [(str ''name'', JStr []), (str ''email'', JStr (str ''ann@gmail.com''))]"

definition userless_chat :: json where
  "userless_chat = JDict [(str ''message'', JStr (str ''hello there''))]"

definition untyped_event :: json where
  "untyped_event = JDict [(str ''collection'', JStr (str ''apes''))]"

definition mint_event :: json where
  "mint_event = JDict [(str ''event_type'', JStr (str ''nft_mint''))]"

definition broken_transfer :: json where
  "broken_transfer =
     JDict [(str ''event_type'', JStr (str ''token_transfer'')),
            (str ''token'', JStr (str ''SOLANA'')),
            (str ''amount'', JNull)]"

definition broken_swap :: json where
  "broken_swap =
     JDict [(str ''event_type'', JStr (str ''defi_swap'')),
            (str ''amount_in'', JList [])]"

section \<open>Properties of the workers\<close>

subsection \<open>Sequencing\<close>

lemma bnd_Inr_iff: "bnd m f = Inr y \<longleftrightarrow> (\<exists>v. m = Inr v \<and> f v = Inr y)"
  by (cases m) (simp_all add: bnd_def)

lemma bnd_w_Inr_iff:
  "bnd_w m f = (Inr y, w') \<longleftrightarrow> (\<exists>v w. m = (Inr v, w) \<and> f v w = (Inr y, w'))"
  by (cases m; cases "fst m") (auto simp add: bnd_w_def)

subsection \<open>Lead categories and the rule-based scorer\<close>

lemma categorize_lead_matches: "category_matches (categorize_lead score) score"
  by (simp add: categorize_lead_def category_matches_def str_def)

lemma lead_try_category:
  assumes "lead_try E event_data w = (Inr r, w')"
  shows "\<exists>score. py_subscript r (str ''lead_score'') = Inr (JInt score)
     \<and> py_subscript r (str ''category'') = Inr (JStr (categorize_lead score))"
  using assms unfolding lead_try_def
  by (auto simp add: bnd_w_Inr_iff Let_def str_def split: if_splits)

lemma lead_process_event_processed:
  assumes "lead_process_event E event_data w = (Inr r, w')"
    and "py_subscript r (str ''type'') = Inr (JStr (str ''lead_scoring''))"
  shows "lead_try E event_data w = (Inr r, w')"
proof (cases "lead_try E event_data w")
  case (Pair res w1)
  show ?thesis
  proof (cases res)
    case (Inr v)
    with Pair assms(1) show ?thesis by (simp add: lead_process_event_def)
  next
    case (Inl e)
    with Pair assms have False
      by (auto simp add: lead_process_event_def Let_def str_def split: sum.splits)
    then show ?thesis ..
  qed
qed

lemma fallback_category:
  "fallback_analysis data = Inr a \<Longrightarrow>
     \<exists>score. fallback_score data = Inr score
       \<and> py_subscript a (str ''score'') = Inr (JInt score)
       \<and> py_subscript a (str ''category'') = Inr (JStr (categorize_lead score))"
  by (auto simp add: fallback_analysis_def bnd_Inr_iff categorize_lead_def str_def)

text \<open>
  C2. Whatever the score, \<^verbatim>\<open>categorize_lead\<close> answers hot exactly from 80, warm
  exactly from 60 to below 80 and cold exactly below 60. The category the rule-based
  scorer writes next to its score obeys the same thresholds, and so does the category
  of every processed result of \<^verbatim>\<open>process_event\<close> with respect to its
  \<^verbatim>\<open>lead_score\<close>, on the AI path and on the fallback path alike (a processed
  result exists only for a lead with non-empty name and email).
\<close>

theorem lead_category_thresholds:
  "category_matches (categorize_lead score) score
   \<and> (fallback_analysis data = Inr a \<longrightarrow>
        (\<exists>s c. py_subscript a (str ''score'') = Inr (JInt s)
               \<and> py_subscript a (str ''category'') = Inr (JStr c)
               \<and> category_matches c s))
   \<and> (lead_process_event E event_data w = (Inr result, w')
        \<and> py_subscript result (str ''type'') = Inr (JStr (str ''lead_scoring'')) \<longrightarrow>
        (\<exists>s c. py_subscript result (str ''lead_score'') = Inr (JInt s)
               \<and> py_subscript result (str ''category'') = Inr (JStr c)
               \<and> category_matches c s))"
proof (intro conjI impI)
  show "category_matches (categorize_lead score) score"
    by (rule categorize_lead_matches)
next
  assume "fallback_analysis data = Inr a"
  from fallback_category [OF this] show
    "\<exists>s c. py_subscript a (str ''score'') = Inr (JInt s)
               \<and> py_subscript a (str ''category'') = Inr (JStr c)
               \<and> category_matches c s"
    using categorize_lead_matches by blast
next
  assume h: "lead_process_event E event_data w = (Inr result, w')
        \<and> py_subscript result (str ''type'') = Inr (JStr (str ''lead_scoring''))"
  then have "lead_try E event_data w = (Inr result, w')"
    using lead_process_event_processed by blast
  from lead_try_category [OF this] show
    "\<exists>s c. py_subscript result (str ''lead_score'') = Inr (JInt s)
               \<and> py_subscript result (str ''category'') = Inr (JStr c)
               \<and> category_matches c s"
    using categorize_lead_matches by blast
qed

theorem lead_category_thresholds_witness:
  "(\<exists>a. fallback_analysis gmail_lead = Inr a
        \<and> (\<exists>s c. py_subscript a (str ''score'') = Inr (JInt s)
               \<and> py_subscript a (str ''category'') = Inr (JStr c)
               \<and> category_matches c s))
   \<and> (\<exists>result w'. lead_process_event demo_env (envelope (str ''lead_scoring'') gmail_lead) world0
                     = (Inr result, w')
        \<and> py_subscript result (str ''type'') = Inr (JStr (str ''lead_scoring''))
        \<and> (\<exists>s c. py_subscript result (str ''lead_score'') = Inr (JInt s)
               \<and> py_subscript result (str ''category'') = Inr (JStr c)
               \<and> category_matches c s))"
proof -
  have "case fallback_analysis gmail_lead of Inr a \<Rightarrow> True | Inl e \<Rightarrow> False"
    by code_simp
  then obtain a where a: "fallback_analysis gmail_lead = Inr a"
    by (cases "fallback_analysis gmail_lead") auto
  have "case lead_process_event demo_env (envelope (str ''lead_scoring'') gmail_lead) world0 of
          (Inr r, w') \<Rightarrow> py_subscript r (str ''type'') = Inr (JStr (str ''lead_scoring''))
        | (Inl e, w') \<Rightarrow> False"
    by code_simp
  then obtain r w' where
    r: "lead_process_event demo_env (envelope (str ''lead_scoring'') gmail_lead) world0 = (Inr r, w')"
       "py_subscript r (str ''type'') = Inr (JStr (str ''lead_scoring''))"
    by (cases "lead_process_event demo_env (envelope (str ''lead_scoring'') gmail_lead) world0";
        cases "fst (lead_process_event demo_env (envelope (str ''lead_scoring'') gmail_lead) world0)")
       auto
  show ?thesis
    using a r lead_category_thresholds [of 0 gmail_lead a demo_env
        "envelope (str ''lead_scoring'') gmail_lead" world0 r w']
    by blast
qed

text \<open>
  C3. The rule-based scorer starts at 50, adds the points for the email domain, the
  company size, the title and the source, and clamps the sum to 0..100. For the lead
  of scenario B the points are 5, 20, 15 and 10, the score is 100 and the category
  is hot.
\<close>

theorem fallback_scoring_rules:
  "(fallback_score data = Inr score \<longrightarrow>
      (\<exists>email company_size title source.
          get_lower data (str ''email'') = Inr email
        \<and> get_lower data (str ''company_size'') = Inr company_size
        \<and> get_lower data (str ''title'') = Inr title
        \<and> get_lower data (str ''source'') = Inr source
        \<and> score = max 0 (min 100 (50 + email_points email + company_size_points company_size
                                    + title_points title + source_points source))
        \<and> 0 \<le> score \<and> score \<le> 100))
   \<and> email_points (lower (str ''x@acmecorp.com'')) = 5
   \<and> company_size_points (lower (str ''1000+ employees'')) = 20
   \<and> title_points (lower (str ''VP of Sales'')) = 15
   \<and> source_points (lower (str ''linkedin'')) = 10
   \<and> fallback_score scenario_b = Inr 100
   \<and> (\<exists>a. fallback_analysis scenario_b = Inr a
          \<and> py_subscript a (str ''score'') = Inr (JInt 100)
          \<and> py_subscript a (str ''category'') = Inr (JStr (str ''hot'')))"
proof (intro conjI impI)
  assume "fallback_score data = Inr score"
  then show "\<exists>email company_size title source.
          get_lower data (str ''email'') = Inr email
        \<and> get_lower data (str ''company_size'') = Inr company_size
        \<and> get_lower data (str ''title'') = Inr title
        \<and> get_lower data (str ''source'') = Inr source
        \<and> score = max 0 (min 100 (50 + email_points email + company_size_points company_size
                                    + title_points title + source_points source))
        \<and> 0 \<le> score \<and> score \<le> 100"
    by (auto simp add: fallback_score_def bnd_Inr_iff Let_def clamp_int_def)
next
  show "email_points (lower (str ''x@acmecorp.com'')) = 5" by code_simp
  show "company_size_points (lower (str ''1000+ employees'')) = 20" by code_simp
  show "title_points (lower (str ''VP of Sales'')) = 15" by code_simp
  show "source_points (lower (str ''linkedin'')) = 10" by code_simp
  show "fallback_score scenario_b = Inr 100" by code_simp
  have "case fallback_analysis scenario_b of
          Inr a \<Rightarrow> py_subscript a (str ''score'') = Inr (JInt 100)
                   \<and> py_subscript a (str ''category'') = Inr (JStr (str ''hot''))
        | Inl e \<Rightarrow> False"
    by code_simp
  then show "\<exists>a. fallback_analysis scenario_b = Inr a
          \<and> py_subscript a (str ''score'') = Inr (JInt 100)
          \<and> py_subscript a (str ''category'') = Inr (JStr (str ''hot''))"
    by (cases "fallback_analysis scenario_b") auto
qed

theorem fallback_scoring_rules_witness:
  "fallback_score gmail_lead = Inr 45
   \<and> (\<exists>email company_size title source.
          get_lower gmail_lead (str ''email'') = Inr email
        \<and> get_lower gmail_lead (str ''company_size'') = Inr company_size
        \<and> get_lower gmail_lead (str ''title'') = Inr title
        \<and> get_lower gmail_lead (str ''source'') = Inr source
        \<and> (45::int) = max 0 (min 100 (50 + email_points email + company_size_points company_size
                                    + title_points title + source_points source))
        \<and> (0::int) \<le> 45 \<and> (45::int) \<le> 100)"
proof -
  have h: "fallback_score gmail_lead = Inr 45" by code_simp
  show ?thesis using h fallback_scoring_rules [of gmail_lead 45] by blast
qed

subsection \<open>Rounding\<close>

lemma round_half_even_lower: "of_int (round_half_even x) \<ge> x - 1 / 2"
  unfolding round_half_even_def Let_def by (auto; linarith)

lemma round_half_even_upper: "of_int (round_half_even x) \<le> x + 1 / 2"
  unfolding round_half_even_def Let_def by (auto; linarith)

lemma round_half_even_mono:
  assumes xy: "x \<le> y"
  shows "round_half_even x \<le> round_half_even y"
proof (cases "\<lfloor>x\<rfloor> = \<lfloor>y\<rfloor>")
  case True
  then show ?thesis using xy unfolding round_half_even_def Let_def by auto
next
  case False
  moreover have "\<lfloor>x\<rfloor> \<le> \<lfloor>y\<rfloor>" using xy by (rule floor_mono)
  ultimately have lt: "\<lfloor>x\<rfloor> + 1 \<le> \<lfloor>y\<rfloor>" by linarith
  have a: "round_half_even x \<le> \<lfloor>x\<rfloor> + 1" unfolding round_half_even_def Let_def by auto
  have b: "\<lfloor>y\<rfloor> \<le> round_half_even y" unfolding round_half_even_def Let_def by auto
  from a b lt show ?thesis by linarith
qed

lemma round_nd_mono: "x \<le> y \<Longrightarrow> round_nd n x \<le> round_nd n y"
  unfolding round_nd_def
  by (intro divide_right_mono, simp, rule round_half_even_mono, rule mult_right_mono) simp_all

lemma round_nd_close: "\<bar>round_nd 3 x - x\<bar> \<le> 1 / 2000"
proof -
  let ?r = "real_of_int (round_half_even (x * 1000))"
  have l: "?r \<ge> x * 1000 - 1 / 2" by (rule round_half_even_lower)
  have u: "?r \<le> x * 1000 + 1 / 2" by (rule round_half_even_upper)
  have eq: "round_nd 3 x - x = (?r - x * 1000) / 1000"
    unfolding round_nd_def by (simp add: field_simps)
  from l u have "\<bar>?r - x * 1000\<bar> \<le> 1 / 2" by linarith
  then show ?thesis unfolding eq by simp
qed

subsection \<open>Chat analysis: scenario A, sentiment, toxicity and spam\<close>

text \<open>
  C6, as stated, fails: the message of scenario A has 33 characters, so the bonus of
  10 for 50 to 200 characters does not apply to it, and its engagement score is not
  the 50 + 10 + 6 + 5 + 3 of the specification's section 8.
\<close>

theorem scenario_a_length_bonus_counterexample:
  "length scenario_a = 33
   \<and> length_points (length scenario_a) \<noteq> 10
   \<and> calculate_engagement_score scenario_a \<noteq> 50 + 10 + 6 + 5 + 3"
  by code_simp

text \<open>
  C6, amended. For the message of scenario A the sentiment label is positive, the
  entities are the mention alice and the hashtag win, and the engagement score is the
  value of the specification's formula on 33 characters, no question mark, 3
  exclamation marks, 1 mention, 1 hashtag and no emoji: 50 + 0 + 6 + 5 + 3 = 64, with
  no length bonus. For every message \<^verbatim>\<open>calculate_engagement_score\<close> is that formula
  on the six counts of the message.
\<close>

theorem scenario_a_analysis:
  "py_subscript (analyze_sentiment scenario_a) (str ''label'') = Inr (JStr (str ''positive''))
   \<and> extract_entities scenario_a
       = JDict [(str ''mentions'', JList [JStr (str ''alice'')]),
                (str ''hashtags'', JList [JStr (str ''win'')])]
   \<and> length scenario_a = 33
   \<and> count_list scenario_a 63 = 0
   \<and> count_list scenario_a 33 = 3
   \<and> length (findall mention_pattern scenario_a) = 1
   \<and> length (findall hashtag_pattern scenario_a) = 1
   \<and> length (findall [Rep is_emoji 1 (Some 1)] scenario_a) = 0
   \<and> spec_engagement 33 0 3 1 1 0 = 50 + 0 + 0 + 6 + 5 + 3 + 0
   \<and> calculate_engagement_score scenario_a = 64
   \<and> (\<forall>m. calculate_engagement_score m
          = spec_engagement (length m) (count_list m 63) (count_list m 33)
              (length (findall mention_pattern m)) (length (findall hashtag_pattern m))
              (length (findall [Rep is_emoji 1 (Some 1)] m)))"
proof (intro conjI allI)
  fix m
  show "calculate_engagement_score m
          = spec_engagement (length m) (count_list m 63) (count_list m 33)
              (length (findall mention_pattern m)) (length (findall hashtag_pattern m))
              (length (findall [Rep is_emoji 1 (Some 1)] m))"
    by (simp add: calculate_engagement_score_def spec_engagement_def length_points_def Let_def)
qed code_simp+

text \<open>
  C4, as stated, fails: the dictionary \<^verbatim>\<open>analyze_sentiment\<close> returns holds the
  score rounded to three places. The message "good a b" has one positive word, no
  negative word and three words, and its score is 0.333, not 1/3.
\<close>

theorem sentiment_score_rounded_counterexample:
  "count_in positive_words (tokenize_message (str ''good a b'')) = 1
   \<and> count_in negative_words (tokenize_message (str ''good a b'')) = 0
   \<and> length (tokenize_message (str ''good a b'')) = 3
   \<and> py_subscript (analyze_sentiment (str ''good a b'')) (str ''score'') = Inr (JFloat 0.333)
   \<and> JFloat 0.333 \<noteq> JFloat (clamp_real (- 1) 1 ((1 - 0) / 3))"
proof (intro conjI)
  show "JFloat 0.333 \<noteq> JFloat (clamp_real (- 1) 1 ((1 - 0) / 3))"
    by (simp add: clamp_real_def)
qed code_simp+

lemma sentiment_label_field:
  "py_subscript (analyze_sentiment message) (str ''label'')
     = Inr (JStr (sentiment_label (tokenize_message message)))"
  by (simp add: analyze_sentiment_def Let_def str_def)

lemma sentiment_label_cases:
  fixes ws :: "pystr list"
  defines "raw \<equiv> clamp_real (- 1) 1
     ((real (count_in positive_words ws) - real (count_in negative_words ws)) / real (length ws))"
  shows "(sentiment_label ws = str ''positive'' \<longleftrightarrow> raw > 0.1)
       \<and> (sentiment_label ws = str ''negative'' \<longleftrightarrow> raw < - 0.1)
       \<and> (sentiment_label ws = str ''neutral'' \<longleftrightarrow> - 0.1 \<le> raw \<and> raw \<le> 0.1)"
proof (cases "count_in positive_words ws + count_in negative_words ws = 0")
  case True
  then have "raw = 0" unfolding raw_def by (simp add: clamp_real_def)
  with True show ?thesis by (simp add: sentiment_label_def Let_def str_def)
next
  case False
  then show ?thesis
    unfolding raw_def by (auto simp add: sentiment_label_def sentiment_score_def Let_def str_def)
qed

text \<open>
  C4, amended. For every message, with \<open>p\<close> positive words, \<open>n\<close> negative words
  and \<open>raw = clamp((p - n) / word_count, -1, 1)\<close>: when no sentiment word matches
  the score is 0 and the label neutral; otherwise the score returned is \<open>raw\<close>
  rounded to three places, at most 0.0005 away from it, and the label is decided on
  \<open>raw\<close> itself with strict boundaries: positive exactly when \<open>raw > 0.1\<close>,
  negative exactly when \<open>raw < -0.1\<close>, neutral exactly in between, so that a raw
  score of 0.1 is neutral.
\<close>

theorem sentiment_score_and_label:
  "(let ws = tokenize_message message;
        p = count_in positive_words ws;
        n = count_in negative_words ws;
        raw = clamp_real (- 1) 1 ((real p - real n) / real (length ws));
        score = py_subscript (analyze_sentiment message) (str ''score'');
        label = py_subscript (analyze_sentiment message) (str ''label'')
    in score = Inr (if p + n = 0 then JInt 0 else JFloat (round_nd 3 raw))
     \<and> \<bar>round_nd 3 raw - raw\<bar> \<le> 1 / 2000
     \<and> (label = Inr (JStr (str ''positive'')) \<longleftrightarrow> raw > 0.1)
     \<and> (label = Inr (JStr (str ''negative'')) \<longleftrightarrow> raw < - 0.1)
     \<and> (label = Inr (JStr (str ''neutral'')) \<longleftrightarrow> - 0.1 \<le> raw \<and> raw \<le> 0.1)
     \<and> (p + n > 0 \<or> score = Inr (JInt 0) \<and> label = Inr (JStr (str ''neutral''))))"
proof -
  let ?ws = "tokenize_message message"
  let ?p = "count_in positive_words ?ws"
  let ?n = "count_in negative_words ?ws"
  let ?raw = "clamp_real (- 1) 1 ((real ?p - real ?n) / real (length ?ws))"
  have s: "py_subscript (analyze_sentiment message) (str ''score'')
             = Inr (if ?p + ?n = 0 then JInt 0 else JFloat (round_nd 3 ?raw))"
    by (simp add: analyze_sentiment_def sentiment_score_def Let_def str_def)
  have l: "py_subscript (analyze_sentiment message) (str ''label'')
             = Inr (JStr (sentiment_label ?ws))"
    by (rule sentiment_label_field)
  have z: "?p + ?n > 0 \<or> sentiment_label ?ws = str ''neutral''"
    by (auto simp add: sentiment_label_def Let_def)
  show ?thesis
    unfolding Let_def s l
    using sentiment_label_cases [of ?ws] round_nd_close [of ?raw] z
    by auto
qed

text \<open>
  C8. With the word count fixed, the toxicity score \<open>min(1, toxic_count / word_count * 10)\<close>
  does not decrease when the number of toxic words grows, and the spam score
  \<open>min(1, indicator_count / 5)\<close> does not decrease when the number of indicators
  grows; the same holds for the scores as returned, rounded to three places. These
  are the scores \<^verbatim>\<open>detect_toxicity\<close> and \<^verbatim>\<open>detect_spam\<close> return.
\<close>

theorem toxicity_spam_monotone:
  "(t1 \<le> t2 \<longrightarrow>
      toxicity_score t1 word_count \<le> toxicity_score t2 word_count
      \<and> round_nd 3 (toxicity_score t1 word_count) \<le> round_nd 3 (toxicity_score t2 word_count))
   \<and> (k1 \<le> k2 \<longrightarrow>
      spam_score k1 \<le> spam_score k2
      \<and> round_nd 3 (spam_score k1) \<le> round_nd 3 (spam_score k2))
   \<and> py_subscript (detect_toxicity message) (str ''score'')
       = Inr (JFloat (round_nd 3
           (toxicity_score (count_in toxic_words (tokenize_message message))
              (length (tokenize_message message)))))
   \<and> py_subscript (detect_spam message) (str ''score'')
       = Inr (JFloat (round_nd 3 (spam_score (length (spam_indicators message)))))"
proof (intro conjI impI)
  assume t: "t1 \<le> t2"
  show a: "toxicity_score t1 word_count \<le> toxicity_score t2 word_count"
    unfolding toxicity_score_def using t
    by (intro min.mono order_refl mult_right_mono divide_right_mono) simp_all
  show "round_nd 3 (toxicity_score t1 word_count) \<le> round_nd 3 (toxicity_score t2 word_count)"
    using a by (rule round_nd_mono)
next
  assume k: "k1 \<le> k2"
  show b: "spam_score k1 \<le> spam_score k2"
    unfolding spam_score_def using k
    by (intro min.mono order_refl divide_right_mono) simp_all
  show "round_nd 3 (spam_score k1) \<le> round_nd 3 (spam_score k2)"
    using b by (rule round_nd_mono)
next
  show "py_subscript (detect_toxicity message) (str ''score'')
       = Inr (JFloat (round_nd 3
           (toxicity_score (count_in toxic_words (tokenize_message message))
              (length (tokenize_message message)))))"
    by (simp add: detect_toxicity_def count_in_def Let_def str_def)
  show "py_subscript (detect_spam message) (str ''score'')
       = Inr (JFloat (round_nd 3 (spam_score (length (spam_indicators message)))))"
    by (simp add: detect_spam_def Let_def str_def)
qed

theorem toxicity_spam_monotone_witness:
  "(1::nat) \<le> 2
   \<and> toxicity_score 1 20 = 1 / 2 \<and> toxicity_score 2 20 = 1
   \<and> toxicity_score 1 20 \<le> toxicity_score 2 20
   \<and> round_nd 3 (toxicity_score 1 20) \<le> round_nd 3 (toxicity_score 2 20)
   \<and> spam_score 1 = 1 / 5 \<and> spam_score 2 = 2 / 5
   \<and> spam_score 1 \<le> spam_score 2
   \<and> round_nd 3 (spam_score 1) \<le> round_nd 3 (spam_score 2)"
  using toxicity_spam_monotone [of 1 2 20 1 2 scenario_a]
  by (simp add: toxicity_score_def spam_score_def)

subsection \<open>Blockchain: premium and price category\<close>






subsection \<open>The pipelines: results and effects\<close>

lemma map_of_dict_set: "map_of (dict_set k v d) k' = (if k' = k then Some v else map_of d k')"
  by (induction d) auto

lemma save_redis:
  "has_key data (str ''id'') \<Longrightarrow>
   snd (save_to_database E worker_type data w)
     = (if redis_up E then w\<lparr>redis := redis w @ [cache_entry E worker_type data]\<rparr> else w)"
  by (auto simp add: save_to_database_def cache_entry_def has_key_def Let_def split: sum.splits)

lemma lead_save_redis:
  "has_key data (str ''id'') \<Longrightarrow>
   snd (lead_save_to_database E data w)
     = (if redis_up E then w\<lparr>redis := redis w @ [cache_entry E (str ''lead_scoring'') data]\<rparr> else w)"
proof -
  assume i: "has_key data (str ''id'')"
  have "snd (lead_save_to_database E data w) = snd (save_to_database E (str ''lead_scoring'') data w)"
    by (simp add: lead_save_to_database_def split: prod.splits)
  then show ?thesis using save_redis [OF i, of E "str ''lead_scoring''" w] by simp
qed

lemma lead_graph_redis [simp]: "redis (lead_update_graph_relationships E data w) = redis w"
  by (simp add: lead_update_graph_relationships_def split: sum.splits)

lemma chat_graph_redis [simp]: "redis (chat_update_graph_relationships E data w) = redis w"
  by (simp add: chat_update_graph_relationships_def split: sum.splits)

lemma blockchain_graph_redis [simp]: "redis (blockchain_update_graph_relationships E data w) = redis w"
  by (simp add: blockchain_update_graph_relationships_def split: sum.splits)







lemma lead_error_branch:
  assumes "lead_try E (JDict d) w = (Inl e, w1)"
  shows "case lead_process_event E (JDict d) w of
           (Inr r, w') \<Rightarrow>
              is_error_result (str ''lead_scoring_error'') (str ''lead_scoring_worker'') r
            \<and> \<not> is_processed_result (str ''lead_scoring'') (str ''lead_scoring_worker'') r
            \<and> py_subscript r (str ''error'') = Inr (JStr (exn_text E e))
            \<and> \<not> has_key r (str ''analysis'')
            \<and> \<not> has_key r (str ''ai_analysis'')
            \<and> \<not> has_key r (str ''lead_score'')
            \<and> ai_requests w' = ai_requests w1
            \<and> graph w' = graph w1
            \<and> redis w' = (if redis_up E then redis w1 @ [cache_entry E (str ''lead_scoring'') r]
                           else redis w1)
         | (Inl e2, w') \<Rightarrow> False"
proof -
  let ?r = "JDict
     [(str ''id'', JStr (str ''lead_error_'' @ str_int (now_unix E))),
      (str ''type'', JStr (str ''lead_scoring_error'')),
      (str ''error'', JStr (exn_text E e)),
      (str ''original_data'', dict_get d (str ''data'') (JDict [])),
      (str ''processed_at'', JStr (now_iso E)),
      (str ''worker'', JStr (str ''lead_scoring_worker''))]"
  have id: "has_key ?r (str ''id'')"
    by (simp add: has_key_def)
  have pe: "lead_process_event E (JDict d) w = (Inr ?r, snd (lead_save_to_database E ?r w1))"
    using assms by (simp add: lead_process_event_def py_get_def Let_def)
  have shape: "is_error_result (str ''lead_scoring_error'') (str ''lead_scoring_worker'') ?r
            \<and> \<not> is_processed_result (str ''lead_scoring'') (str ''lead_scoring_worker'') ?r
            \<and> py_subscript ?r (str ''error'') = Inr (JStr (exn_text E e))
            \<and> \<not> has_key ?r (str ''analysis'')
            \<and> \<not> has_key ?r (str ''ai_analysis'')
            \<and> \<not> has_key ?r (str ''lead_score'')"
    by (simp add: is_processed_result_def is_error_result_def has_key_def has_text_def str_def)
  show ?thesis
    unfolding pe using shape lead_save_redis [OF id, of E w1] by simp
qed


lemma lead_validation_failure:
  assumes d: "py_subscript event_data (str ''data'') = Inr data"
    and v: "lead_validate_event data \<noteq> Inr True"
  shows "error_outcome E (str ''lead_scoring'') (str ''lead_scoring_error'')
           (str ''lead_scoring_worker'')
           (validation_exn (str ''Invalid lead data: missing required fields'')
              (lead_validate_event data))
           w (lead_process_event E event_data w)"
proof -
  from d obtain dd where ev: "event_data = JDict dd" by (cases event_data) auto
  let ?e = "validation_exn (str ''Invalid lead data: missing required fields'')
              (lead_validate_event data)"
  have t: "lead_try E (JDict dd) w = (Inl ?e, w)"
    using d v unfolding ev lead_try_def
    by (cases "lead_validate_event data")
       (auto simp add: bnd_w_def py_get_def validation_exn_def)
  from lead_error_branch [OF t] show ?thesis
    unfolding ev by (auto simp add: error_outcome_def split: prod.splits sum.splits)
qed




lemma chat_error_branch:
  assumes "chat_try E (JDict d) w = (Inl e, w1)"
  shows "case chat_process_event E (JDict d) w of
           (Inr r, w') \<Rightarrow>
              is_error_result (str ''chat_analysis_error'') (str ''chat_analysis_worker'') r
            \<and> \<not> is_processed_result (str ''chat_analysis'') (str ''chat_analysis_worker'') r
            \<and> py_subscript r (str ''error'') = Inr (JStr (exn_text E e))
            \<and> \<not> has_key r (str ''analysis'')
            \<and> \<not> has_key r (str ''ai_analysis'')
            \<and> \<not> has_key r (str ''lead_score'')
            \<and> ai_requests w' = ai_requests w1
            \<and> graph w' = graph w1
            \<and> redis w' = (if redis_up E then redis w1 @ [cache_entry E (str ''chat_analysis'') r]
                           else redis w1)
         | (Inl e2, w') \<Rightarrow> False"
proof -
  let ?r = "JDict
     [(str ''id'', JStr (str ''chat_error_'' @ str_int (now_unix E))),
      (str ''type'', JStr (str ''chat_analysis_error'')),
      (str ''error'', JStr (exn_text E e)),
      (str ''original_data'', dict_get d (str ''data'') (JDict [])),
      (str ''processed_at'', JStr (now_iso E)),
      (str ''worker'', JStr (str ''chat_analysis_worker''))]"
  have id: "has_key ?r (str ''id'')"
    by (simp add: has_key_def)
  have pe: "chat_process_event E (JDict d) w
              = (Inr ?r, snd (save_to_database E (str ''chat_analysis'') ?r w1))"
    using assms by (simp add: chat_process_event_def py_get_def Let_def)
  have shape: "is_error_result (str ''chat_analysis_error'') (str ''chat_analysis_worker'') ?r
            \<and> \<not> is_processed_result (str ''chat_analysis'') (str ''chat_analysis_worker'') ?r
            \<and> py_subscript ?r (str ''error'') = Inr (JStr (exn_text E e))
            \<and> \<not> has_key ?r (str ''analysis'')
            \<and> \<not> has_key ?r (str ''ai_analysis'')
            \<and> \<not> has_key ?r (str ''lead_score'')"
    by (simp add: is_processed_result_def is_error_result_def has_key_def has_text_def str_def)
  show ?thesis
    unfolding pe using shape save_redis [OF id, of E "str ''chat_analysis''" w1] by simp
qed


lemma chat_validation_failure:
  assumes d: "py_subscript event_data (str ''data'') = Inr data"
    and v: "chat_validate_event data \<noteq> Inr True"
  shows "error_outcome E (str ''chat_analysis'') (str ''chat_analysis_error'')
           (str ''chat_analysis_worker'')
           (validation_exn (str ''Invalid chat event data'') (chat_validate_event data))
           w (chat_process_event E event_data w)"
proof -
  from d obtain dd where ev: "event_data = JDict dd" by (cases event_data) auto
  let ?e = "validation_exn (str ''Invalid chat event data'') (chat_validate_event data)"
  have t: "chat_try E (JDict dd) w = (Inl ?e, w)"
    using d v unfolding ev chat_try_def
    by (cases "chat_validate_event data")
       (auto simp add: bnd_w_def py_get_def validation_exn_def)
  from chat_error_branch [OF t] show ?thesis
    unfolding ev by (auto simp add: error_outcome_def split: prod.splits sum.splits)
qed
lemma blockchain_try_processed:
  assumes "blockchain_try E event_data w = (Inr r, w')"
  shows "is_processed_result (str ''blockchain_event'') (str ''blockchain_worker'') r
       \<and> \<not> is_error_result (str ''blockchain_error'') (str ''blockchain_worker'') r
       \<and> redis w' = (if redis_up E then redis w @ [cache_entry E (str ''blockchain_events'') r]
                      else redis w)"
  using assms unfolding blockchain_try_def
  apply (clarsimp simp add: bnd_w_Inr_iff Let_def split: if_splits)
  apply (simp add: save_redis has_key_def has_text_def is_processed_result_def
                   is_error_result_def dict_update_def map_of_dict_set str_def)
  done


lemma blockchain_error_branch:
  assumes "blockchain_try E (JDict d) w = (Inl e, w1)"
  shows "case blockchain_process_event E (JDict d) w of
           (Inr r, w') \<Rightarrow>
              is_error_result (str ''blockchain_error'') (str ''blockchain_worker'') r
            \<and> \<not> is_processed_result (str ''blockchain_event'') (str ''blockchain_worker'') r
            \<and> py_subscript r (str ''error'') = Inr (JStr (exn_text E e))
            \<and> \<not> has_key r (str ''analysis'')
            \<and> \<not> has_key r (str ''ai_analysis'')
            \<and> \<not> has_key r (str ''lead_score'')
            \<and> ai_requests w' = ai_requests w1
            \<and> graph w' = graph w1
            \<and> redis w' = (if redis_up E
                           then redis w1 @ [cache_entry E (str ''blockchain_events'') r]
                           else redis w1)
         | (Inl e2, w') \<Rightarrow> False"
proof -
  let ?r = "JDict
     [(str ''id'', JStr (str ''blockchain_error_'' @ str_int (now_unix E))),
      (str ''type'', JStr (str ''blockchain_error'')),
      (str ''error'', JStr (exn_text E e)),
      (str ''original_data'', dict_get d (str ''data'') (JDict [])),
      (str ''processed_at'', JStr (now_iso E)),
      (str ''worker'', JStr (str ''blockchain_worker''))]"
  have id: "has_key ?r (str ''id'')"
    by (simp add: has_key_def)
  have pe: "blockchain_process_event E (JDict d) w
              = (Inr ?r, snd (save_to_database E (str ''blockchain_events'') ?r w1))"
    using assms by (simp add: blockchain_process_event_def py_get_def Let_def)
  have shape: "is_error_result (str ''blockchain_error'') (str ''blockchain_worker'') ?r
            \<and> \<not> is_processed_result (str ''blockchain_event'') (str ''blockchain_worker'') ?r
            \<and> py_subscript ?r (str ''error'') = Inr (JStr (exn_text E e))
            \<and> \<not> has_key ?r (str ''analysis'')
            \<and> \<not> has_key ?r (str ''ai_analysis'')
            \<and> \<not> has_key ?r (str ''lead_score'')"
    by (simp add: is_processed_result_def is_error_result_def has_key_def has_text_def str_def)
  show ?thesis
    unfolding pe using shape save_redis [OF id, of E "str ''blockchain_events''" w1] by simp
qed


lemma blockchain_validation_failure:
  assumes d: "py_subscript event_data (str ''data'') = Inr data"
    and v: "blockchain_validate_event data \<noteq> Inr True"
  shows "error_outcome E (str ''blockchain_events'') (str ''blockchain_error'')
           (str ''blockchain_worker'')
           (validation_exn (str ''Invalid blockchain event data'') (blockchain_validate_event data))
           w (blockchain_process_event E event_data w)"
proof -
  from d obtain dd where ev: "event_data = JDict dd" by (cases event_data) auto
  let ?e = "validation_exn (str ''Invalid blockchain event data'') (blockchain_validate_event data)"
  have t: "blockchain_try E (JDict dd) w = (Inl ?e, w)"
    using d v unfolding ev blockchain_try_def
    by (cases "blockchain_validate_event data")
       (auto simp add: bnd_w_def py_get_def validation_exn_def)
  from blockchain_error_branch [OF t] show ?thesis
    unfolding ev by (auto simp add: error_outcome_def split: prod.splits sum.splits)
qed

lemma blockchain_unknown_type:
  assumes d: "py_subscript event_data (str ''data'') = Inr data"
    and k: "py_subscript data (str ''event_type'') = Inr event_type"
    and n: "event_type \<noteq> JStr (str ''nft_sale'')" "event_type \<noteq> JStr (str ''token_transfer'')"
           "event_type \<noteq> JStr (str ''defi_swap'')"
  shows "error_outcome E (str ''blockchain_events'') (str ''blockchain_error'')
           (str ''blockchain_worker'')
           (ValueError (str ''Unknown blockchain event type: '' @ fmt E event_type))
           w (blockchain_process_event E event_data w)"
proof -
  from d obtain dd where ev: "event_data = JDict dd" by (cases event_data) auto
  from k obtain d2 where dat: "data = JDict d2" by (cases data) auto
  from k have m: "map_of d2 (str ''event_type'') = Some event_type"
    unfolding dat by (simp split: option.splits)
  let ?e = "ValueError (str ''Unknown blockchain event type: '' @ fmt E event_type)"
  have t: "blockchain_try E (JDict dd) w = (Inl ?e, w)"
    using d m n unfolding ev dat blockchain_try_def
    by (simp add: bnd_w_def py_get_def dict_get_def blockchain_validate_event_def
                  dispatch_event_def)
  from blockchain_error_branch [OF t] show ?thesis
    unfolding ev by (auto simp add: error_outcome_def split: prod.splits sum.splits)
qed

lemma blockchain_degraded:
  assumes d: "py_subscript event_data (str ''data'') = Inr data"
    and k: "py_subscript data (str ''event_type'') = Inr event_type"
    and s: "dispatch_event E event_type data = Inr (JDict sub)"
    and e: "map_of sub (str ''error'') = Some (JStr (exn_text E e))"
  shows "degraded_outcome E e w (blockchain_process_event E event_data w)"
proof -
  from d obtain dd where ev: "event_data = JDict dd" by (cases event_data) auto
  from k obtain d2 where dat: "data = JDict d2" by (cases data) auto
  from k have m: "map_of d2 (str ''event_type'') = Some event_type"
    unfolding dat by (simp split: option.splits)
  let ?r = "JDict (dict_update sub
                [(str ''id'', JStr (str ''blockchain_'' @ str_int (now_unix E))),
                 (str ''type'', JStr (str ''blockchain_event'')),
                 (str ''original_data'', data),
                 (str ''processed_at'', JStr (now_iso E)),
                 (str ''processed_by'', dict_get dd (str ''user_id'') JNull),
                 (str ''worker'', JStr (str ''blockchain_worker''))])"
  have t: "blockchain_try E (JDict dd) w
             = (Inr ?r, blockchain_update_graph_relationships E ?r
                          (snd (save_to_database E (str ''blockchain_events'') ?r w)))"
    using d m s unfolding ev dat blockchain_try_def
    by (simp add: bnd_w_def py_get_def dict_get_def blockchain_validate_event_def Let_def)
  then have pe: "blockchain_process_event E (JDict dd) w
             = (Inr ?r, blockchain_update_graph_relationships E ?r
                          (snd (save_to_database E (str ''blockchain_events'') ?r w)))"
    by (simp add: blockchain_process_event_def)
  have err: "map_of (dict_update sub
                [(str ''id'', JStr (str ''blockchain_'' @ str_int (now_unix E))),
                 (str ''type'', JStr (str ''blockchain_event'')),
                 (str ''original_data'', data),
                 (str ''processed_at'', JStr (now_iso E)),
                 (str ''processed_by'', dict_get dd (str ''user_id'') JNull),
                 (str ''worker'', JStr (str ''blockchain_worker''))]) (str ''error'')
             = map_of sub (str ''error'')"
    by (simp add: dict_update_def map_of_dict_set str_def)
  have "py_subscript ?r (str ''error'') = Inr (JStr (exn_text E e))"
    using e err by simp
  moreover from blockchain_try_processed [OF t]
  have "is_processed_result (str ''blockchain_event'') (str ''blockchain_worker'') ?r
       \<and> \<not> is_error_result (str ''blockchain_error'') (str ''blockchain_worker'') ?r
       \<and> redis (blockchain_update_graph_relationships E ?r
                   (snd (save_to_database E (str ''blockchain_events'') ?r w)))
          = (if redis_up E then redis w @ [cache_entry E (str ''blockchain_events'') ?r]
             else redis w)" .
  moreover have "py_subscript ?r (str ''type'') = Inr (JStr (str ''blockchain_event''))
     \<and> py_subscript ?r (str ''id'') = Inr (JStr (str ''blockchain_'' @ str_int (now_unix E)))"
    by (simp add: dict_update_def map_of_dict_set str_def)
  ultimately show ?thesis
    unfolding ev pe by (simp add: degraded_outcome_def)
qed

lemma sub_analyzer_error_entry:
  assumes "data = JDict d2"
  shows "nft_sale_body E data = Inl e \<Longrightarrow>
           \<exists>sub. process_nft_sale E data = Inr (JDict sub)
                 \<and> map_of sub (str ''error'') = Some (JStr (exn_text E e))"
    and "token_transfer_body E data = Inl e \<Longrightarrow>
           \<exists>sub. process_token_transfer E data = Inr (JDict sub)
                 \<and> map_of sub (str ''error'') = Some (JStr (exn_text E e))"
    and "defi_swap_body E data = Inl e \<Longrightarrow>
           \<exists>sub. process_defi_swap E data = Inr (JDict sub)
                 \<and> map_of sub (str ''error'') = Some (JStr (exn_text E e))"
  unfolding assms
  by (simp_all add: process_nft_sale_def process_token_transfer_def process_defi_swap_def
                    py_get_def bnd_def str_def)
lemma process_event_on_non_object:
  assumes "\<forall>d. event_data \<noteq> JDict d"
  shows "lead_process_event E event_data w = (Inl AttributeError, w)"
    and "chat_process_event E event_data w = (Inl AttributeError, w)"
    and "blockchain_process_event E event_data w = (Inl AttributeError, w)"
  using assms
  by (cases event_data;
      simp add: lead_process_event_def lead_try_def chat_process_event_def chat_try_def
                blockchain_process_event_def blockchain_try_def bnd_w_def py_get_def)+

lemma validate_event_on_object:
  "lead_validate_event (JDict d)
     = Inr ((case map_of d (str ''name'') of Some v \<Rightarrow> truthy v | None \<Rightarrow> False)
            \<and> (case map_of d (str ''email'') of Some v \<Rightarrow> truthy v | None \<Rightarrow> False))"
  "chat_validate_event (JDict d)
     = Inr ((case map_of d (str ''message'') of Some v \<Rightarrow> truthy v | None \<Rightarrow> False)
            \<and> (case map_of d (str ''user'') of Some v \<Rightarrow> truthy v | None \<Rightarrow> False))"
  "blockchain_validate_event (JDict d) = Inr (map_of d (str ''event_type'') \<noteq> None)"
  by (auto simp add: lead_validate_event_def chat_validate_event_def blockchain_validate_event_def
                     required_def bnd_def split: option.splits)

subsection \<open>The claims on \<^verbatim>\<open>process_event\<close>\<close>


text \<open>
  C7. When the payload of an event fails the worker's \<^verbatim>\<open>validate_event\<close> (on a
  JSON object: name and email present and non-empty for a lead, message and user
  present and non-empty for a chat message, the key \<^verbatim>\<open>event_type\<close> present for a
  blockchain event), \<^verbatim>\<open>process_event\<close> ends in the error result for that failure:
  no analysis entry in the result, no request to the AI service, no write to the
  graph, and the error result as the only write to the cache; nothing is tried a
  second time. The same holds for a blockchain event whose \<^verbatim>\<open>event_type\<close> is none
  of nft_sale, token_transfer and defi_swap, with the error text naming the type.
\<close>

theorem invalid_event_yields_error_result:
  "(py_subscript event_data (str ''data'') = Inr data
      \<and> lead_validate_event data \<noteq> Inr True \<longrightarrow>
        error_outcome E (str ''lead_scoring'') (str ''lead_scoring_error'')
          (str ''lead_scoring_worker'')
          (validation_exn (str ''Invalid lead data: missing required fields'')
             (lead_validate_event data))
          w (lead_process_event E event_data w))
   \<and> (py_subscript event_data (str ''data'') = Inr data
      \<and> chat_validate_event data \<noteq> Inr True \<longrightarrow>
        error_outcome E (str ''chat_analysis'') (str ''chat_analysis_error'')
          (str ''chat_analysis_worker'')
          (validation_exn (str ''Invalid chat event data'') (chat_validate_event data))
          w (chat_process_event E event_data w))
   \<and> (py_subscript event_data (str ''data'') = Inr data
      \<and> blockchain_validate_event data \<noteq> Inr True \<longrightarrow>
        error_outcome E (str ''blockchain_events'') (str ''blockchain_error'')
          (str ''blockchain_worker'')
          (validation_exn (str ''Invalid blockchain event data'') (blockchain_validate_event data))
          w (blockchain_process_event E event_data w))
   \<and> (py_subscript event_data (str ''data'') = Inr data
      \<and> py_subscript data (str ''event_type'') = Inr event_type
      \<and> event_type \<noteq> JStr (str ''nft_sale'')
      \<and> event_type \<noteq> JStr (str ''token_transfer'')
      \<and> event_type \<noteq> JStr (str ''defi_swap'') \<longrightarrow>
        error_outcome E (str ''blockchain_events'') (str ''blockchain_error'')
          (str ''blockchain_worker'')
          (ValueError (str ''Unknown blockchain event type: '' @ fmt E event_type))
          w (blockchain_process_event E event_data w))
   \<and> lead_validate_event (JDict d)
       = Inr ((case map_of d (str ''name'') of Some v \<Rightarrow> truthy v | None \<Rightarrow> False)
              \<and> (case map_of d (str ''email'') of Some v \<Rightarrow> truthy v | None \<Rightarrow> False))
   \<and> chat_validate_event (JDict d)
       = Inr ((case map_of d (str ''message'') of Some v \<Rightarrow> truthy v | None \<Rightarrow> False)
              \<and> (case map_of d (str ''user'') of Some v \<Rightarrow> truthy v | None \<Rightarrow> False))
   \<and> blockchain_validate_event (JDict d) = Inr (map_of d (str ''event_type'') \<noteq> None)"
  using lead_validation_failure [of event_data data E w]
        chat_validation_failure [of event_data data E w]
        blockchain_validation_failure [of event_data data E w]
        blockchain_unknown_type [of event_data data event_type E w]
        validate_event_on_object [of d]
  by blast

theorem invalid_event_yields_error_result_witness:
  "(py_subscript (envelope (str ''lead_scoring'') nameless_lead) (str ''data'') = Inr nameless_lead
      \<and> lead_validate_event nameless_lead \<noteq> Inr True
      \<and> error_outcome demo_env (str ''lead_scoring'') (str ''lead_scoring_error'')
          (str ''lead_scoring_worker'')
          (validation_exn (str ''Invalid lead data: missing required fields'')
             (lead_validate_event nameless_lead))
          world0 (lead_process_event demo_env (envelope (str ''lead_scoring'') nameless_lead) world0))
   \<and> (py_subscript (envelope (str ''chat_analysis'') userless_chat) (str ''data'') = Inr userless_chat
      \<and> chat_validate_event userless_chat \<noteq> Inr True
      \<and> error_outcome demo_env (str ''chat_analysis'') (str ''chat_analysis_error'')
          (str ''chat_analysis_worker'')
          (validation_exn (str ''Invalid chat event data'') (chat_validate_event userless_chat))
          world0 (chat_process_event demo_env (envelope (str ''chat_analysis'') userless_chat) world0))
   \<and> (py_subscript (envelope (str ''blockchain_events'') untyped_event) (str ''data'')
        = Inr untyped_event
      \<and> blockchain_validate_event untyped_event \<noteq> Inr True
      \<and> error_outcome demo_env (str ''blockchain_events'') (str ''blockchain_error'')
          (str ''blockchain_worker'')
          (validation_exn (str ''Invalid blockchain event data'')
             (blockchain_validate_event untyped_event))
          world0
          (blockchain_process_event demo_env (envelope (str ''blockchain_events'') untyped_event)
             world0))
   \<and> (py_subscript (envelope (str ''blockchain_events'') mint_event) (str ''data'') = Inr mint_event
      \<and> py_subscript mint_event (str ''event_type'') = Inr (JStr (str ''nft_mint''))
      \<and> JStr (str ''nft_mint'') \<noteq> JStr (str ''nft_sale'')
      \<and> JStr (str ''nft_mint'') \<noteq> JStr (str ''token_transfer'')
      \<and> JStr (str ''nft_mint'') \<noteq> JStr (str ''defi_swap'')
      \<and> error_outcome demo_env (str ''blockchain_events'') (str ''blockchain_error'')
          (str ''blockchain_worker'')
          (ValueError (str ''Unknown blockchain event type: '' @ fmt demo_env (JStr (str ''nft_mint''))))
          world0
          (blockchain_process_event demo_env (envelope (str ''blockchain_events'') mint_event)
             world0))"
proof -
  have l: "py_subscript (envelope (str ''lead_scoring'') nameless_lead) (str ''data'') = Inr nameless_lead
      \<and> lead_validate_event nameless_lead \<noteq> Inr True"
    by code_simp
  have c: "py_subscript (envelope (str ''chat_analysis'') userless_chat) (str ''data'') = Inr userless_chat
      \<and> chat_validate_event userless_chat \<noteq> Inr True"
    by code_simp
  have b: "py_subscript (envelope (str ''blockchain_events'') untyped_event) (str ''data'')
        = Inr untyped_event
      \<and> blockchain_validate_event untyped_event \<noteq> Inr True"
    by code_simp
  have m: "py_subscript (envelope (str ''blockchain_events'') mint_event) (str ''data'') = Inr mint_event
      \<and> py_subscript mint_event (str ''event_type'') = Inr (JStr (str ''nft_mint''))
      \<and> JStr (str ''nft_mint'') \<noteq> JStr (str ''nft_sale'')
      \<and> JStr (str ''nft_mint'') \<noteq> JStr (str ''token_transfer'')
      \<and> JStr (str ''nft_mint'') \<noteq> JStr (str ''defi_swap'')"
    by code_simp
  show ?thesis
    using l c b m
      invalid_event_yields_error_result
        [of "envelope (str ''lead_scoring'') nameless_lead" nameless_lead demo_env world0
            "JStr (str ''nft_mint'')" "[]"]
      invalid_event_yields_error_result
        [of "envelope (str ''chat_analysis'') userless_chat" userless_chat demo_env world0
            "JStr (str ''nft_mint'')" "[]"]
      invalid_event_yields_error_result
        [of "envelope (str ''blockchain_events'') untyped_event" untyped_event demo_env world0
            "JStr (str ''nft_mint'')" "[]"]
      invalid_event_yields_error_result
        [of "envelope (str ''blockchain_events'') mint_event" mint_event demo_env world0
            "JStr (str ''nft_mint'')" "[]"]
    by blast
qed

text \<open>
  C10. When the \<^verbatim>\<open>try\<close> block of a blockchain sub-analyzer raises, as it does when
  \<^verbatim>\<open>float\<close> rejects the \<^verbatim>\<open>price\<close> of an NFT sale or the \<^verbatim>\<open>amount\<close> of a token
  transfer, \<^verbatim>\<open>process_event\<close> still ends on its success path: the result returned
  and written to the cache has the type \<^verbatim>\<open>blockchain_event\<close> and the id
  \<^verbatim>\<open>blockchain_\<close> followed by the time, is a processed result and not an error
  result, and carries the \<^verbatim>\<open>error\<close> entry of the sub-analyzer.
\<close>

theorem sub_analyzer_failure_stays_on_success_path:
  "(py_subscript event_data (str ''data'') = Inr data
      \<and> py_subscript data (str ''event_type'') = Inr (JStr (str ''nft_sale''))
      \<and> nft_sale_body E data = Inl e \<longrightarrow>
        degraded_outcome E e w (blockchain_process_event E event_data w))
   \<and> (py_subscript event_data (str ''data'') = Inr data
      \<and> py_subscript data (str ''event_type'') = Inr (JStr (str ''token_transfer''))
      \<and> token_transfer_body E data = Inl e \<longrightarrow>
        degraded_outcome E e w (blockchain_process_event E event_data w))
   \<and> (py_subscript event_data (str ''data'') = Inr data
      \<and> py_subscript data (str ''event_type'') = Inr (JStr (str ''defi_swap''))
      \<and> defi_swap_body E data = Inl e \<longrightarrow>
        degraded_outcome E e w (blockchain_process_event E event_data w))
   \<and> (py_float E (dict_get d (str ''price'') (JInt 0)) = Inl e \<longrightarrow>
        nft_sale_body E (JDict d) = Inl e)
   \<and> (py_float E (dict_get d (str ''amount'') (JInt 0)) = Inl e \<longrightarrow>
        token_transfer_body E (JDict d) = Inl e)"
proof (intro conjI impI)
  assume h: "py_subscript event_data (str ''data'') = Inr data
      \<and> py_subscript data (str ''event_type'') = Inr (JStr (str ''nft_sale''))
      \<and> nft_sale_body E data = Inl e"
  then obtain d2 where dat: "data = JDict d2" by (cases data) auto
  from sub_analyzer_error_entry(1) [OF dat, of E e] h obtain sub where
    "process_nft_sale E data = Inr (JDict sub)"
    "map_of sub (str ''error'') = Some (JStr (exn_text E e))" by blast
  with h show "degraded_outcome E e w (blockchain_process_event E event_data w)"
    by (intro blockchain_degraded [where event_type = "JStr (str ''nft_sale'')" and sub = sub])
       (simp_all add: dispatch_event_def)
next
  assume h: "py_subscript event_data (str ''data'') = Inr data
      \<and> py_subscript data (str ''event_type'') = Inr (JStr (str ''token_transfer''))
      \<and> token_transfer_body E data = Inl e"
  then obtain d2 where dat: "data = JDict d2" by (cases data) auto
  from sub_analyzer_error_entry(2) [OF dat, of E e] h obtain sub where
    "process_token_transfer E data = Inr (JDict sub)"
    "map_of sub (str ''error'') = Some (JStr (exn_text E e))" by blast
  with h show "degraded_outcome E e w (blockchain_process_event E event_data w)"
    by (intro blockchain_degraded [where event_type = "JStr (str ''token_transfer'')" and sub = sub])
       (simp_all add: dispatch_event_def str_def)
next
  assume h: "py_subscript event_data (str ''data'') = Inr data
      \<and> py_subscript data (str ''event_type'') = Inr (JStr (str ''defi_swap''))
      \<and> defi_swap_body E data = Inl e"
  then obtain d2 where dat: "data = JDict d2" by (cases data) auto
  from sub_analyzer_error_entry(3) [OF dat, of E e] h obtain sub where
    "process_defi_swap E data = Inr (JDict sub)"
    "map_of sub (str ''error'') = Some (JStr (exn_text E e))" by blast
  with h show "degraded_outcome E e w (blockchain_process_event E event_data w)"
    by (intro blockchain_degraded [where event_type = "JStr (str ''defi_swap'')" and sub = sub])
       (simp_all add: dispatch_event_def str_def)
next
  assume "py_float E (dict_get d (str ''price'') (JInt 0)) = Inl e"
  then show "nft_sale_body E (JDict d) = Inl e"
    by (simp add: nft_sale_body_def py_get_def bnd_def)
next
  assume "py_float E (dict_get d (str ''amount'') (JInt 0)) = Inl e"
  then show "token_transfer_body E (JDict d) = Inl e"
    by (simp add: token_transfer_body_def py_get_def bnd_def)
qed

theorem sub_analyzer_failure_stays_on_success_path_witness:
  "(py_subscript (envelope (str ''blockchain_events'') broken_sale) (str ''data'') = Inr broken_sale
      \<and> py_subscript broken_sale (str ''event_type'') = Inr (JStr (str ''nft_sale''))
      \<and> nft_sale_body demo_env broken_sale = Inl ConversionError
      \<and> degraded_outcome demo_env ConversionError world0
          (blockchain_process_event demo_env (envelope (str ''blockchain_events'') broken_sale) world0))
   \<and> (py_subscript (envelope (str ''blockchain_events'') broken_transfer) (str ''data'')
        = Inr broken_transfer
      \<and> py_subscript broken_transfer (str ''event_type'') = Inr (JStr (str ''token_transfer''))
      \<and> token_transfer_body demo_env broken_transfer = Inl TypeError
      \<and> degraded_outcome demo_env TypeError world0
          (blockchain_process_event demo_env (envelope (str ''blockchain_events'') broken_transfer)
             world0))
   \<and> (py_subscript (envelope (str ''blockchain_events'') broken_swap) (str ''data'') = Inr broken_swap
      \<and> py_subscript broken_swap (str ''event_type'') = Inr (JStr (str ''defi_swap''))
      \<and> defi_swap_body demo_env broken_swap = Inl TypeError
      \<and> degraded_outcome demo_env TypeError world0
          (blockchain_process_event demo_env (envelope (str ''blockchain_events'') broken_swap) world0))
   \<and> (py_float demo_env (dict_get [(str ''price'', JStr (str ''abc''))] (str ''price'') (JInt 0))
        = Inl ConversionError
      \<and> nft_sale_body demo_env (JDict [(str ''price'', JStr (str ''abc''))]) = Inl ConversionError)
   \<and> (py_float demo_env (dict_get [(str ''amount'', JNull)] (str ''amount'') (JInt 0)) = Inl TypeError
      \<and> token_transfer_body demo_env (JDict [(str ''amount'', JNull)]) = Inl TypeError)"
proof -
  have s: "py_subscript (envelope (str ''blockchain_events'') broken_sale) (str ''data'') = Inr broken_sale
      \<and> py_subscript broken_sale (str ''event_type'') = Inr (JStr (str ''nft_sale''))
      \<and> nft_sale_body demo_env broken_sale = Inl ConversionError"
    by code_simp
  have t: "py_subscript (envelope (str ''blockchain_events'') broken_transfer) (str ''data'')
        = Inr broken_transfer
      \<and> py_subscript broken_transfer (str ''event_type'') = Inr (JStr (str ''token_transfer''))
      \<and> token_transfer_body demo_env broken_transfer = Inl TypeError"
    by code_simp
  have x: "py_subscript (envelope (str ''blockchain_events'') broken_swap) (str ''data'') = Inr broken_swap
      \<and> py_subscript broken_swap (str ''event_type'') = Inr (JStr (str ''defi_swap''))
      \<and> defi_swap_body demo_env broken_swap = Inl TypeError"
    by code_simp
  have p: "py_float demo_env (dict_get [(str ''price'', JStr (str ''abc''))] (str ''price'') (JInt 0))
        = Inl ConversionError"
    by code_simp
  have a: "py_float demo_env (dict_get [(str ''amount'', JNull)] (str ''amount'') (JInt 0)) = Inl TypeError"
    by code_simp
  show ?thesis
    using s t x p a
      sub_analyzer_failure_stays_on_success_path
        [of "envelope (str ''blockchain_events'') broken_sale" broken_sale demo_env ConversionError
            world0 "[(str ''price'', JStr (str ''abc''))]"]
      sub_analyzer_failure_stays_on_success_path
        [of "envelope (str ''blockchain_events'') broken_transfer" broken_transfer demo_env TypeError
            world0 "[(str ''amount'', JNull)]"]
      sub_analyzer_failure_stays_on_success_path
        [of "envelope (str ''blockchain_events'') broken_swap" broken_swap demo_env TypeError
            world0 "[(str ''amount'', JNull)]"]
    by blast
qed

text \<open>
  C9 does not hold of the code: on the AI path the score read from the analysis is
  stored as it is. An answer \<^verbatim>\<open>{"score": 150}\<close> gives a processed result with
  \<^verbatim>\<open>lead_score\<close> 150, and prose holding \<^verbatim>\<open>"score": 999\<close> gives 999 through the
  pattern; a negative score in a JSON answer passes through \<^verbatim>\<open>int\<close> unchanged.
\<close>

theorem lead_score_not_clamped_on_ai_path:
  "(case lead_process_event json_env (envelope (str ''lead_scoring'') gmail_lead) world0 of
      (Inr r, w') \<Rightarrow>
        py_subscript r (str ''type'') = Inr (JStr (str ''lead_scoring''))
        \<and> py_subscript r (str ''lead_score'') = Inr (JInt 150)
        \<and> py_subscript r (str ''category'') = Inr (JStr (str ''hot''))
    | (Inl e, w') \<Rightarrow> False)
   \<and> (case lead_process_event prose_env (envelope (str ''lead_scoring'') gmail_lead) world0 of
      (Inr r, w') \<Rightarrow>
        py_subscript r (str ''type'') = Inr (JStr (str ''lead_scoring''))
        \<and> py_subscript r (str ''lead_score'') = Inr (JInt 999)
    | (Inl e, w') \<Rightarrow> False)
   \<and> extract_score_from_analysis
        (demo_env\<lparr>json_loads := (\<lambda>text. Some (JDict [(str ''score'', JInt (- 5))]))\<rparr>)
        (JStr (str ''{}'')) = Inr (- 5)"
  by code_simp

end
